theory Spec2Isabelle
  imports Main "HOL-Library.Monad_Syntax" "HOL-Library.Sublist" "HOL-Library.AList"
begin

section \<open>Text primitives of the Python runtime\<close>

text \<open>
  Python strings are sequences of code points. They are modelled as \<open>string\<close>, so a
  character is a code point below 256 (Latin-1); the character classes below are the
  ones \<open>str.isspace\<close>, \<open>str.isalnum\<close>, \<open>str.lower\<close> and the \<open>re\<close> module
  (\<open>\s\<close>, \<open>\d\<close>, \<open>\w\<close>, \<open>.\<close>) have on that range.
\<close>

definition is_space :: "char \<Rightarrow> bool" where
  "is_space c = (c \<in> set [CHR 0x09, CHR ''\<newline>'', CHR 0x0B, CHR 0x0C, CHR 0x0D,
      CHR 0x1C, CHR 0x1D, CHR 0x1E, CHR 0x1F, CHR '' '', CHR 0x85, CHR 0xA0])"

definition is_digit :: "char \<Rightarrow> bool" where
  "is_digit c = (c \<in> set ''0123456789'')"

definition is_alnum :: "char \<Rightarrow> bool" where
  "is_alnum c = (let n = (of_char c :: nat) in
      (48 \<le> n \<and> n \<le> 57) \<or> (65 \<le> n \<and> n \<le> 90) \<or> (97 \<le> n \<and> n \<le> 122) \<or>
      n = 170 \<or> n = 178 \<or> n = 179 \<or> n = 181 \<or> n = 185 \<or> n = 186 \<or>
      (188 \<le> n \<and> n \<le> 190) \<or> (192 \<le> n \<and> n \<le> 214) \<or>
      (216 \<le> n \<and> n \<le> 246) \<or> (248 \<le> n \<and> n \<le> 255))"

definition is_word :: "char \<Rightarrow> bool" where
  "is_word c = (is_alnum c \<or> c = CHR ''_'')"

definition py_lower :: "char \<Rightarrow> char" where
  "py_lower c = (let n = (of_char c :: nat) in
      if (65 \<le> n \<and> n \<le> 90) \<or> (192 \<le> n \<and> n \<le> 222 \<and> n \<noteq> 215)
      then char_of (n + 32) else c)"

text \<open>\<open>str.lstrip\<close>, \<open>str.rstrip\<close> and \<open>str.strip\<close> with no argument.\<close>

definition lstrip :: "string \<Rightarrow> string" where
  "lstrip s = dropWhile is_space s"

definition rstrip :: "string \<Rightarrow> string" where
  "rstrip s = rev (dropWhile is_space (rev s))"

definition strip :: "string \<Rightarrow> string" where
  "strip s = rstrip (lstrip s)"

section \<open>The regular expressions of the scripts\<close>

text \<open>
  A pattern is modelled by its matcher at one position: given the character before the
  position (for \<open>^\<close> and \<open>\b\<close>) and the text from the position on, it returns the
  captured groups and the text left after the match, or \<open>None\<close>. Every pattern of the
  scripts is deterministic at a position (a greedy run is always followed by a character
  outside its class, a lazy run stops at the first place the rest matches), so the
  matchers need no backtracking. \<open>re_sub\<close>, \<open>re_search\<close> and \<open>re_finditer\<close> scan the
  positions from left to right as \<open>re.sub\<close>, \<open>re.search\<close> and \<open>re.finditer\<close> do.
  No pattern of the scripts matches the empty string; the length tests in \<open>re_sub\<close>
  and \<open>re_finditer\<close> only make the recursion well-founded.
\<close>

type_synonym 'g matcher = "char option \<Rightarrow> string \<Rightarrow> ('g \<times> string) option"

function re_sub :: "'g matcher \<Rightarrow> string \<Rightarrow> char option \<Rightarrow> string \<Rightarrow> string" where
  "re_sub m repl prev [] = []"
| "re_sub m repl prev (x # xs) =
     (case m prev (x # xs) of
        None \<Rightarrow> x # re_sub m repl (Some x) xs
      | Some (g, r) \<Rightarrow>
          if length r \<le> length xs
          then repl @ re_sub m repl (Some ((x # xs) ! (length xs - length r))) r
          else x # re_sub m repl (Some x) xs)"
  by pat_completeness auto
termination
  by (relation "measure (\<lambda>(m, repl, prev, xs). length xs)") auto

fun re_search :: "'g matcher \<Rightarrow> char option \<Rightarrow> string \<Rightarrow> (string \<times> 'g \<times> string) option" where
  "re_search m prev [] = map_option (\<lambda>(g, r). ([], g, r)) (m prev [])"
| "re_search m prev (x # xs) =
     (case m prev (x # xs) of
        Some (g, r) \<Rightarrow> Some ([], g, r)
      | None \<Rightarrow> map_option (\<lambda>(p, g, r). (x # p, g, r)) (re_search m (Some x) xs))"

text \<open>A match of \<open>re_finditer\<close> is \<open>(start, end, groups)\<close>, offsets into the scanned text.\<close>

function re_finditer :: "'g matcher \<Rightarrow> nat \<Rightarrow> char option \<Rightarrow> string \<Rightarrow> (nat \<times> nat \<times> 'g) list" where
  "re_finditer m pos prev [] = []"
| "re_finditer m pos prev (x # xs) =
     (case m prev (x # xs) of
        None \<Rightarrow> re_finditer m (Suc pos) (Some x) xs
      | Some (g, r) \<Rightarrow>
          if length r \<le> length xs
          then (pos, pos + (Suc (length xs) - length r), g)
                 # re_finditer m (pos + (Suc (length xs) - length r))
                     (Some ((x # xs) ! (length xs - length r))) r
          else re_finditer m (Suc pos) (Some x) xs)"
  by pat_completeness auto
termination
  by (relation "measure (\<lambda>(m, pos, prev, xs). length xs)") auto

declare re_sub.simps(2) [simp del]
declare re_finditer.simps(2) [simp del]

subsection \<open>Pieces of patterns\<close>

text \<open>A literal, and a literal under \<open>(?i)\<close>.\<close>

fun lit :: "string \<Rightarrow> string \<Rightarrow> string option" where
  "lit [] xs = Some xs"
| "lit (p # ps) [] = None"
| "lit (p # ps) (x # xs) = (if x = p then lit ps xs else None)"

fun lit_ci :: "string \<Rightarrow> string \<Rightarrow> string option" where
  "lit_ci [] xs = Some xs"
| "lit_ci (p # ps) [] = None"
| "lit_ci (p # ps) (x # xs) = (if py_lower x = py_lower p then lit_ci ps xs else None)"

text \<open>\<open>\s*\<close>, \<open>\s+\<close> and \<open>\d+\<close>: greedy runs.\<close>

definition skip_ws :: "string \<Rightarrow> string" where
  "skip_ws xs = dropWhile is_space xs"

definition ws1 :: "string \<Rightarrow> string option" where
  "ws1 xs = (case xs of [] \<Rightarrow> None | x # _ \<Rightarrow> if is_space x then Some (skip_ws xs) else None)"

definition digits1 :: "string \<Rightarrow> (string \<times> string) option" where
  "digits1 xs = (if takeWhile is_digit xs = [] then None
                 else Some (takeWhile is_digit xs, dropWhile is_digit xs))"

text \<open>\<open>.*?c\<close> without DOTALL: up to the first \<open>c\<close> on the line.\<close>

fun until_char :: "char \<Rightarrow> string \<Rightarrow> (string \<times> string) option" where
  "until_char c [] = None"
| "until_char c (x # xs) =
     (if x = c then Some ([], xs)
      else if x = CHR ''\<newline>'' then None
      else map_option (\<lambda>(g, r). (x # g, r)) (until_char c xs))"

text \<open>\<open>.*?$\<close> under MULTILINE: the rest of the line.\<close>

definition to_eol :: "string \<Rightarrow> string" where
  "to_eol xs = dropWhile (\<lambda>c. c \<noteq> CHR ''\<newline>'') xs"

text \<open>\<open>^\<close> and \<open>$\<close> under MULTILINE, \<open>$\<close> without it, and \<open>\b\<close>.\<close>

definition at_bol :: "char option \<Rightarrow> bool" where
  "at_bol prev = (prev = None \<or> prev = Some (CHR ''\<newline>''))"

definition at_eol :: "string \<Rightarrow> bool" where
  "at_eol xs = (case xs of [] \<Rightarrow> True | x # _ \<Rightarrow> x = CHR ''\<newline>'')"

definition at_dollar :: "string \<Rightarrow> bool" where
  "at_dollar xs = (xs = [] \<or> xs = [CHR ''\<newline>''])"

definition word_before :: "char option \<Rightarrow> bool" where
  "word_before prev = (case prev of None \<Rightarrow> False | Some c \<Rightarrow> is_word c)"

definition word_after :: "string \<Rightarrow> bool" where
  "word_after xs = (case xs of [] \<Rightarrow> False | x # _ \<Rightarrow> is_word x)"

text \<open>\<open>(.*?)\<close> under DOTALL in front of a lookahead: the shortest text after which
  \<open>stop\<close> holds.\<close>

fun lazy_until :: "(string \<Rightarrow> bool) \<Rightarrow> string \<Rightarrow> (string \<times> string) option" where
  "lazy_until stop [] = (if stop [] then Some ([], []) else None)"
| "lazy_until stop (x # xs) =
     (if stop (x # xs) then Some ([], x # xs)
      else map_option (\<lambda>(g, r). (x # g, r)) (lazy_until stop xs))"

section \<open>The Text Cleaner: \<open>clean_explanation\<close>\<close>

text \<open>The patterns of \<open>clean_explanation\<close>, in the order of the source.\<close>

definition phrase_to_qmark :: "string \<Rightarrow> unit matcher" where
  \<comment> \<open>\<open>(?i)PHRASE.*?\?\<close>\<close>
  "phrase_to_qmark phrase prev xs =
     do { r \<leftarrow> lit_ci phrase xs; (g, r') \<leftarrow> until_char (CHR ''?'') r; Some ((), r') }"

definition phrase_to_eol :: "string \<Rightarrow> unit matcher" where
  \<comment> \<open>\<open>(?i)PHRASE.*?$\<close> with \<open>re.MULTILINE\<close>\<close>
  "phrase_to_eol phrase prev xs = do { r \<leftarrow> lit_ci phrase xs; Some ((), to_eol r) }"

definition phrase :: "string \<Rightarrow> unit matcher" where
  \<comment> \<open>a literal pattern\<close>
  "phrase p prev xs = do { r \<leftarrow> lit p xs; Some ((), r) }"

definition page_line :: "unit matcher" where
  \<comment> \<open>\<open>^\d+ of \d+$\<close> with \<open>re.MULTILINE\<close>\<close>
  "page_line prev xs =
     (if at_bol prev then
        do { (a, r1) \<leftarrow> digits1 xs; r2 \<leftarrow> lit '' of '' r1; (b, r3) \<leftarrow> digits1 r2;
             if at_eol r3 then Some ((), r3) else None }
      else None)"

definition page_word :: "unit matcher" where
  \<comment> \<open>\<open>\b\d+\s+of\s+\d+\b\<close>\<close>
  "page_word prev xs =
     (if word_before prev then None else
        do { (a, r1) \<leftarrow> digits1 xs; r2 \<leftarrow> ws1 r1; r3 \<leftarrow> lit ''of'' r2; r4 \<leftarrow> ws1 r3;
             (b, r5) \<leftarrow> digits1 r4;
             if word_after r5 then None else Some ((), r5) })"

definition newlines :: "unit matcher" where
  \<comment> \<open>\<open>\n+\<close>\<close>
  "newlines prev xs =
     (case xs of [] \<Rightarrow> None
      | x # _ \<Rightarrow> if x = CHR ''\<newline>''
                 then Some ((), dropWhile (\<lambda>c. c = CHR ''\<newline>'') xs) else None)"

definition spaces :: "unit matcher" where
  \<comment> \<open>\<open>\s+\<close>\<close>
  "spaces prev xs = do { r \<leftarrow> ws1 xs; Some ((), r) }"

text \<open>Lines 15 to 25 of the baseline script: the removals.\<close>

definition remove_boilerplate_baseline :: "string \<Rightarrow> string" where
  "remove_boilerplate_baseline t0 =
     (let t1 = re_sub (phrase_to_qmark ''Why the Correct Answer is'') [] None t0;
          t2 = re_sub (phrase_to_qmark ''Why Not the Other Options'') [] None t1;
          t3 = re_sub (phrase_to_eol ''Relevant CMMC 2.0 References'') [] None t2;
          t4 = re_sub (phrase_to_eol ''Official References from CMMC 2.0'') [] None t3;
          t5 = re_sub (phrase_to_eol ''Final Verification and Conclusion'') [] None t4;
          t6 = re_sub (phrase_to_eol ''Final Answer:#'') [] None t5;
          t7 = re_sub (phrase ''Leaders in it certification'') [] None t6;
          t8 = re_sub (phrase ''Practice Exam'') [] None t7;
          t9 = re_sub (phrase ''Cyber AB - CMMC-CCP'') [] None t8
      in re_sub page_line [] None t9)"

text \<open>Lines 15 to 27 of the fixed script: the same, with one more removal before the
  last.\<close>

definition remove_boilerplate_fixed :: "string \<Rightarrow> string" where
  "remove_boilerplate_fixed t0 =
     (let t1 = re_sub (phrase_to_qmark ''Why the Correct Answer is'') [] None t0;
          t2 = re_sub (phrase_to_qmark ''Why Not the Other Options'') [] None t1;
          t3 = re_sub (phrase_to_eol ''Relevant CMMC 2.0 References'') [] None t2;
          t4 = re_sub (phrase_to_eol ''Official References from CMMC 2.0'') [] None t3;
          t5 = re_sub (phrase_to_eol ''Final Verification and Conclusion'') [] None t4;
          t6 = re_sub (phrase_to_eol ''Final Answer:#'') [] None t5;
          t7 = re_sub (phrase ''Leaders in it certification'') [] None t6;
          t8 = re_sub (phrase ''Practice Exam'') [] None t7;
          t9 = re_sub (phrase ''Cyber AB - CMMC-CCP'') [] None t8;
          t10 = re_sub page_word [] None t9
      in re_sub page_line [] None t10)"

text \<open>The last three lines of both: newlines and runs of whitespace become one space,
  and the result is stripped.\<close>

definition collapse_whitespace :: "string \<Rightarrow> string" where
  "collapse_whitespace t =
     strip (re_sub spaces '' '' None (re_sub newlines '' '' None t))"

definition clean_explanation_baseline :: "string \<Rightarrow> string" where
  "clean_explanation_baseline t = collapse_whitespace (remove_boilerplate_baseline t)"

definition clean_explanation_fixed :: "string \<Rightarrow> string" where
  "clean_explanation_fixed t = collapse_whitespace (remove_boilerplate_fixed t)"

section \<open>The Question Parser: \<open>parse_questions\<close>\<close>

record choice =
  c_id :: string
  c_text :: string
  c_correct :: bool

record question =
  q_id :: string
  q_domain :: string
  q_question :: string
  q_choices :: "choice list"
  q_explanation :: string
  q_reference :: string

datatype error = ValueError | TypeError | AttributeError | KeyError

subsection \<open>Integers and their decimal text\<close>

text \<open>
  \<open>int(s)\<close> on a string of decimal digits, and \<open>str(n)\<close> as the f-strings use it.
  CPython refuses to convert more than \<open>sys.get_int_max_str_digits()\<close> digits
  (4300 unless reconfigured) and raises \<open>ValueError\<close>.
\<close>

definition int_max_str_digits :: nat where
  "int_max_str_digits = 4300"

definition digit_value :: "char \<Rightarrow> nat" where
  "digit_value c = of_char c - 48"

definition digits_value :: "string \<Rightarrow> nat" where
  "digits_value ds = foldl (\<lambda>a c. 10 * a + digit_value c) 0 ds"

definition py_int :: "string \<Rightarrow> error + nat" where
  "py_int ds = (if length ds > int_max_str_digits then Inl ValueError
                else Inr (digits_value ds))"

definition digit_char :: "nat \<Rightarrow> char" where
  "digit_char d = char_of (48 + d)"

fun py_str :: "nat \<Rightarrow> string" where
  "py_str n = (if n < 10 then [digit_char n] else py_str (n div 10) @ [digit_char (n mod 10)])"

declare py_str.simps [simp del]

subsection \<open>The patterns of \<open>parse_questions\<close>\<close>

definition page_marker :: "unit matcher" where
  \<comment> \<open>\<open>\n?\d+ of \d+\n?\<close>\<close>
  "page_marker prev xs =
     do { (a, r1) \<leftarrow> digits1 (case xs of [] \<Rightarrow> [] | x # xs' \<Rightarrow> if x = CHR ''\<newline>'' then xs' else xs);
          r2 \<leftarrow> lit '' of '' r1;
          (b, r3) \<leftarrow> digits1 r2;
          Some ((), case r3 of [] \<Rightarrow> [] | x # r4 \<Rightarrow> if x = CHR ''\<newline>'' then r4 else r3) }"

definition question_header :: "(string \<times> string) matcher" where
  \<comment> \<open>\<open>Question\s*#:\s*(\d+)\s*-\s*\[(.*?)\]\<close>\<close>
  "question_header prev xs =
     do { r1 \<leftarrow> lit ''Question'' xs;
          r2 \<leftarrow> lit ''#:'' (skip_ws r1);
          (num, r3) \<leftarrow> digits1 (skip_ws r2);
          r4 \<leftarrow> lit ''-'' (skip_ws r3);
          r5 \<leftarrow> lit ''['' (skip_ws r4);
          (dname, r6) \<leftarrow> until_char (CHR '']'') r5;
          Some ((num, dname), r6) }"

definition is_choice_letter :: "char \<Rightarrow> bool" where
  \<comment> \<open>\<open>[A-D]\<close>\<close>
  "is_choice_letter c = (c \<in> set ''ABCD'')"

definition answer_marker :: "char matcher" where
  \<comment> \<open>\<open>Answer:\s*([A-D])\<close>\<close>
  "answer_marker prev xs =
     do { r1 \<leftarrow> lit ''Answer:'' xs;
          case skip_ws r1 of [] \<Rightarrow> None
          | x # r2 \<Rightarrow> if is_choice_letter x then Some (x, r2) else None }"

text \<open>\<open>(.*?)\s*A\.\s*(.*)\<close> under DOTALL: the lazy first group grows one character
  at a time until \<open>\s*A\.\<close> matches; the last group is the rest of the text.\<close>

fun stem_and_rest_from :: "string \<Rightarrow> (string \<times> string) option" where
  "stem_and_rest_from [] =
     (case lit ''A.'' (skip_ws []) of Some r \<Rightarrow> Some ([], skip_ws r) | None \<Rightarrow> None)"
| "stem_and_rest_from (x # xs) =
     (case lit ''A.'' (skip_ws (x # xs)) of
        Some r \<Rightarrow> Some ([], skip_ws r)
      | None \<Rightarrow> map_option (\<lambda>(g1, g2). (x # g1, g2)) (stem_and_rest_from xs))"

definition stem_and_rest :: "(string \<times> string) matcher" where
  "stem_and_rest prev xs = map_option (\<lambda>g. (g, [])) (stem_and_rest_from xs)"

definition choice_to :: "string \<Rightarrow> string \<Rightarrow> string matcher" where
  \<comment> \<open>\<open>X\.\s*(.*?)(?=Y\.\s*|$)\<close> under DOTALL, for the markers \<open>X.\<close> and \<open>Y.\<close>\<close>
  "choice_to x y prev xs =
     do { r \<leftarrow> lit x xs;
          lazy_until (\<lambda>ys. lit y ys \<noteq> None \<or> at_dollar ys) (skip_ws r) }"

definition choice_d_baseline :: "string matcher" where
  \<comment> \<open>\<open>D\.\s*(.*?)(?=\s*Answer:)\<close> under DOTALL\<close>
  "choice_d_baseline prev xs =
     do { r \<leftarrow> lit ''D.'' xs;
          lazy_until (\<lambda>ys. lit ''Answer:'' (skip_ws ys) \<noteq> None) (skip_ws r) }"

definition choice_d_fixed :: "string matcher" where
  \<comment> \<open>\<open>D\.\s*(.*?)(?=Answer:\s*|$)\<close> under DOTALL\<close>
  "choice_d_fixed prev xs =
     do { r \<leftarrow> lit ''D.'' xs;
          lazy_until (\<lambda>ys. lit ''Answer:'' ys \<noteq> None \<or> at_dollar ys) (skip_ws r) }"

definition answer_and_explanation :: "string matcher" where
  \<comment> \<open>\<open>Answer:\s*[A-D]\s*(.*)\<close> under DOTALL\<close>
  "answer_and_explanation prev xs =
     do { (l, r) \<leftarrow> answer_marker prev xs; Some (skip_ws r, []) }"

subsection \<open>The loop over the question headers\<close>

text \<open>
  Both scripts start alike (lines 44 to 56): page markers become a newline, the headers
  are found, and the text from the end of a header to the start of the next one (or to
  the end of the text) is the header's block. A block is kept as the header's digits,
  the stripped domain and the stripped content.
\<close>

definition clean_page_markers :: "string \<Rightarrow> string" where
  "clean_page_markers t = re_sub page_marker [CHR ''\<newline>''] None t"

definition slice :: "string \<Rightarrow> nat \<Rightarrow> nat \<Rightarrow> string" where
  "slice s i j = take (j - i) (drop i s)"

fun blocks_of :: "string \<Rightarrow> (nat \<times> nat \<times> string \<times> string) list \<Rightarrow> (string \<times> string \<times> string) list" where
  "blocks_of cleaned [] = []"
| "blocks_of cleaned ((s, e, num, dname) # ms) =
     (num, strip dname,
      strip (slice cleaned e (case ms of [] \<Rightarrow> length cleaned | (s', _) # _ \<Rightarrow> s')))
     # blocks_of cleaned ms"

definition question_blocks :: "string \<Rightarrow> (string \<times> string \<times> string) list" where
  "question_blocks t =
     (let cleaned = clean_page_markers t
      in blocks_of cleaned (re_finditer question_header 0 None cleaned))"

definition make_choices :: "char \<Rightarrow> string \<Rightarrow> string \<Rightarrow> string \<Rightarrow> string \<Rightarrow> choice list" where
  "make_choices correct_letter a b c d =
     [\<lparr>c_id = ''A'', c_text = a, c_correct = (correct_letter = CHR ''A'')\<rparr>,
      \<lparr>c_id = ''B'', c_text = b, c_correct = (correct_letter = CHR ''B'')\<rparr>,
      \<lparr>c_id = ''C'', c_text = c, c_correct = (correct_letter = CHR ''C'')\<rparr>,
      \<lparr>c_id = ''D'', c_text = d, c_correct = (correct_letter = CHR ''D'')\<rparr>]"

definition group_text :: "(string \<times> string \<times> string) option \<Rightarrow> string" where
  \<comment> \<open>\<open>m.group(1).strip() if m else ''\<close>\<close>
  "group_text m = (case m of None \<Rightarrow> [] | Some (p, g, r) \<Rightarrow> strip g)"

text \<open>
  The body of the loop, baseline script (lines 58 to 111); \<open>None\<close> is \<open>continue\<close>.
  The debugging output for question 1 and the warning on an empty choice print only.
\<close>

definition block_baseline :: "nat \<Rightarrow> string \<Rightarrow> string \<Rightarrow> question option" where
  "block_baseline q_num domain content =
     (case re_search answer_marker None content of
        None \<Rightarrow> None
      | Some (before_answer, correct_letter, after_answer) \<Rightarrow>
         (case re_search stem_and_rest None content of
            None \<Rightarrow> None
          | Some (p, (g1, g2), r) \<Rightarrow>
             let question_text = strip g1;
                 a_text = group_text (re_search (choice_to ''A.'' ''B.'') None content);
                 b_text = group_text (re_search (choice_to ''B.'' ''C.'') None content);
                 c_text = group_text (re_search (choice_to ''C.'' ''D.'') None content);
                 d_text = group_text (re_search choice_d_baseline None content);
                 explanation_part = strip after_answer;
                 explanation = (if explanation_part \<noteq> []
                                then clean_explanation_baseline explanation_part else [])
             in Some \<lparr>q_id = ''Q'' @ py_str q_num, q_domain = domain,
                      q_question = question_text,
                      q_choices = make_choices correct_letter a_text b_text c_text d_text,
                      q_explanation = explanation, q_reference = []\<rparr>))"

text \<open>The body of the loop, fixed script (lines 58 to 102): the choices and the answer
  are searched in \<open>rest\<close>, the second group of the stem pattern.\<close>

definition block_fixed :: "nat \<Rightarrow> string \<Rightarrow> string \<Rightarrow> question option" where
  "block_fixed q_num domain content =
     (case re_search stem_and_rest None content of
        None \<Rightarrow> None
      | Some (p, (g1, rest), r) \<Rightarrow>
         let question_text = strip g1;
             a_match = re_search (choice_to ''A.'' ''B.'') None rest;
             b_match = re_search (choice_to ''B.'' ''C.'') None rest;
             c_match = re_search (choice_to ''C.'' ''D.'') None rest;
             d_match = re_search choice_d_fixed None rest;
             answer_match = re_search answer_marker None rest
         in if a_match = None \<or> b_match = None \<or> c_match = None \<or> d_match = None
               \<or> answer_match = None
            then None
            else
              let correct_letter = (case answer_match of Some (p, l, r) \<Rightarrow> l);
                  explanation =
                    (case re_search answer_and_explanation None rest of
                       None \<Rightarrow> []
                     | Some (p, g, r) \<Rightarrow> clean_explanation_fixed (strip g))
              in Some \<lparr>q_id = ''Q'' @ py_str q_num, q_domain = domain,
                       q_question = question_text,
                       q_choices = make_choices correct_letter (group_text a_match)
                                     (group_text b_match) (group_text c_match) (group_text d_match),
                       q_explanation = explanation, q_reference = []\<rparr>)"

text \<open>The loop: \<open>int(m.group(1))\<close> may raise, a block that yields no record is skipped,
  a record is appended.\<close>

fun parse_loop :: "(nat \<Rightarrow> string \<Rightarrow> string \<Rightarrow> question option) \<Rightarrow> (string \<times> string \<times> string) list
    \<Rightarrow> question list \<Rightarrow> error + question list" where
  "parse_loop body [] questions = Inr questions"
| "parse_loop body ((num, domain, content) # bs) questions =
     (case py_int num of
        Inl e \<Rightarrow> Inl e
      | Inr q_num \<Rightarrow>
          (case body q_num domain content of
             None \<Rightarrow> parse_loop body bs questions
           | Some q \<Rightarrow> parse_loop body bs (questions @ [q])))"

definition parse_questions_baseline :: "string \<Rightarrow> error + question list" where
  "parse_questions_baseline t = parse_loop block_baseline (question_blocks t) []"

definition parse_questions_fixed :: "string \<Rightarrow> error + question list" where
  "parse_questions_fixed t = parse_loop block_fixed (question_blocks t) []"

section \<open>The Book Builder: \<open>build_epub\<close>\<close>

subsection \<open>JSON values and the Python operations on them\<close>

text \<open>
  \<open>json.loads\<close> gives \<open>None\<close>, booleans, numbers, strings, lists and dictionaries.
  A dictionary is an association list (the first entry of a key counts). Numbers are
  integers here.
\<close>

datatype json = JNull | JBool bool | JNum int | JStr string | JArr "json list"
  | JObj "(string \<times> json) list"

type_synonym dict = "(string \<times> json) list"

definition dict_get :: "dict \<Rightarrow> string \<Rightarrow> json" where
  \<comment> \<open>\<open>d.get(k)\<close>\<close>
  "dict_get d k = (case map_of d k of None \<Rightarrow> JNull | Some v \<Rightarrow> v)"

definition dict_get_default :: "dict \<Rightarrow> string \<Rightarrow> json \<Rightarrow> json" where
  \<comment> \<open>\<open>d.get(k, default)\<close>\<close>
  "dict_get_default d k v0 = (case map_of d k of None \<Rightarrow> v0 | Some v \<Rightarrow> v)"

fun truthy :: "json \<Rightarrow> bool" where
  "truthy JNull = False"
| "truthy (JBool b) = b"
| "truthy (JNum n) = (n \<noteq> 0)"
| "truthy (JStr s) = (s \<noteq> [])"
| "truthy (JArr xs) = (xs \<noteq> [])"
| "truthy (JObj kvs) = (kvs \<noteq> [])"

definition py_or :: "json \<Rightarrow> json \<Rightarrow> json" where
  \<comment> \<open>\<open>x or y\<close>\<close>
  "py_or x y = (if truthy x then x else y)"

text \<open>\<open>str.replace\<close> of one character, \<open>str.join\<close>, \<open>str.split('\n\n')\<close> and
  \<open>str.strip('-')\<close>.\<close>

definition replace_char :: "char \<Rightarrow> string \<Rightarrow> string \<Rightarrow> string" where
  "replace_char old new s = concat (map (\<lambda>c. if c = old then new else [c]) s)"

fun py_join :: "string \<Rightarrow> string list \<Rightarrow> string" where
  "py_join sep [] = []"
| "py_join sep [x] = x"
| "py_join sep (x # y # zs) = x @ sep @ py_join sep (y # zs)"

fun split_blank_line :: "string \<Rightarrow> string list" where
  "split_blank_line [] = [[]]"
| "split_blank_line [a] = [[a]]"
| "split_blank_line (a # b # xs) =
     (if a = CHR ''\<newline>'' \<and> b = CHR ''\<newline>'' then [] # split_blank_line xs
      else (case split_blank_line (b # xs) of
              [] \<Rightarrow> [[a]]
            | p # ps \<Rightarrow> (a # p) # ps))"

definition strip_dashes :: "string \<Rightarrow> string" where
  "strip_dashes s =
     rev (dropWhile (\<lambda>c. c = CHR ''-'') (rev (dropWhile (\<lambda>c. c = CHR ''-'') s)))"

text \<open>\<open>html.escape\<close> with its default \<open>quote=True\<close>: five replacements, the ampersand
  first.\<close>

definition html_escape :: "string \<Rightarrow> string" where
  \<open>html_escape s =
     replace_char (CHR 0x27) ''&#x27;''
       (replace_char (CHR 0x22) ''&quot;''
         (replace_char (CHR ''>'') ''&gt;''
           (replace_char (CHR ''<'') ''&lt;''
             (replace_char (CHR ''&'') ''&amp;'' s))))\<close>

text \<open>On a value that is not a string, \<open>html.escape\<close> and \<open>.strip()\<close> raise
  \<open>AttributeError\<close>.\<close>

definition escape_value :: "json \<Rightarrow> error + string" where
  "escape_value v = (case v of JStr s \<Rightarrow> Inr (html_escape s) | _ \<Rightarrow> Inl AttributeError)"

definition strip_value :: "json \<Rightarrow> error + string" where
  "strip_value v = (case v of JStr s \<Rightarrow> Inr (strip s) | _ \<Rightarrow> Inl AttributeError)"

subsection \<open>\<open>_slugify\<close> and \<open>_as_paragraphs\<close>\<close>

definition slugify :: "string \<Rightarrow> string" where
  "slugify s = strip_dashes (map (\<lambda>ch. if is_alnum ch then py_lower ch else CHR ''-'') s)"

definition as_paragraphs :: "string \<Rightarrow> string" where
  \<open>as_paragraphs text0 =
     (let text1 = strip text0 in
      if text1 = [] then []
      else
        let parts = map strip (filter (\<lambda>p. strip p \<noteq> []) (split_blank_line text1))
        in py_join [CHR ''\<newline>'']
             (map (\<lambda>p. ''<p>'' @ replace_char (CHR ''\<newline>'') ''<br/>'' (html_escape p) @ ''</p>'')
                parts))\<close>

subsection \<open>The documents\<close>

text \<open>The right arrow of the title page (U+2192) is beyond the 8-bit characters of
  \<open>string\<close>; it stands here as its three UTF-8 bytes, as the archive stores it.\<close>

definition rightwards_arrow :: string where
  "rightwards_arrow = [CHR 0xE2, CHR 0x86, CHR 0x92]"

definition container_xml :: "string" where
  \<open>container_xml =
     ''<?xml version="1.0" encoding="UTF-8"?>\<newline>'' @
     ''<container version="1.0" xmlns="urn:oasis:names:tc:opendocument:xmlns:container">\<newline>'' @
     ''  <rootfiles>\<newline>'' @
     ''    <rootfile full-path="OEBPS/content.opf" media-type="application/oebps-package+xml"/>\<newline>'' @
     ''  </rootfiles>\<newline>'' @
     ''</container>\<newline>''\<close>

definition style_css :: "string" where
  \<open>style_css =
     ''body { font-family: serif; line-height: 1.5; }\<newline>'' @
     ''h1, h2, h3 { font-family: sans-serif; }\<newline>'' @
     ''h1 { font-size: 1.6em; margin: 0 0 0.8em 0; }\<newline>'' @
     ''h2 { font-size: 1.2em; margin: 1.2em 0 0.5em 0; }\<newline>'' @
     ''.domain { font-size: 0.9em; color: #555; margin: 0 0 0.3em 0; }\<newline>'' @
     ''.qa { margin: 0 0 1.2em 0; }\<newline>'' @
     ''.answer { margin-top: 0.3em; }\<newline>'' @
     ''.answer b { font-family: sans-serif; }\<newline>'' @
     ''hr { border: none; border-top: 1px solid #ccc; margin: 1.2em 0; }\<newline>''\<close>

definition title_xhtml :: "string \<Rightarrow> string" where
  \<open>title_xhtml title =
     ''<?xml version="1.0" encoding="utf-8"?>\<newline>'' @
     ''<!DOCTYPE html>\<newline>'' @
     ''<html xmlns="http://www.w3.org/1999/xhtml" xml:lang="en">\<newline>'' @
     ''<head>\<newline>'' @
     ''  <title>CMMC Rapid Memory</title>\<newline>'' @
     ''  <link rel="stylesheet" type="text/css" href="styles/style.css"/>\<newline>'' @
     ''</head>\<newline>'' @
     ''<body>\<newline>'' @
     ''  <h1>'' @
     html_escape title @
     ''</h1>\<newline>'' @
     ''  <p><b>Rapid Memory Mode:</b> Question '' @
     rightwards_arrow @
     '' Answer</p>\<newline>'' @
     ''  <p>This book was generated from the CMMC CCP Test Bank JSON.</p>\<newline>'' @
     ''</body>\<newline>'' @
     ''</html>\<newline>''\<close>

definition manifest_head :: "string list" where
  \<comment> \<open>the initial value of \<open>manifest_items\<close>\<close>
  \<open>manifest_head =
     [''<item id="nav" href="nav.xhtml" media-type="application/xhtml+xml" properties="nav"/>'',
      ''<item id="css" href="styles/style.css" media-type="text/css"/>'',
      ''<item id="icon" href="pwa-icon.svg" media-type="image/svg+xml"/>'',
      ''<item id="title" href="text/title.xhtml" media-type="application/xhtml+xml"/>'',
      ''<item id="ncx" href="toc.ncx" media-type="application/x-dtbncx+xml"/>'']\<close>

definition manifest_item :: "string \<Rightarrow> string \<Rightarrow> string" where
  \<open>manifest_item item_id file_name =
     ''<item id="'' @
     item_id @
     ''" href="'' @
     file_name @
     ''" media-type="application/xhtml+xml"/>''\<close>

definition spine_item :: "string \<Rightarrow> string" where
  \<open>spine_item item_id =
     ''<itemref idref="'' @
     item_id @
     ''"/>''\<close>

definition qa_markup :: "string \<Rightarrow> string \<Rightarrow> string \<Rightarrow> string \<Rightarrow> string" where
  \<comment> \<open>the f-string of lines 113 to 118\<close>
  \<open>qa_markup qid question_text answer_id answer_text =
     ''<div class="qa">\<newline>'' @
     ''  <h2 id="'' @
     html_escape qid @
     ''">'' @
     html_escape qid @
     ''</h2>\<newline>'' @
     ''  '' @
     as_paragraphs question_text @
     ''\<newline>'' @
     ''  <p class="answer"><b>Answer:</b> '' @
     html_escape answer_id @
     (if answer_text \<noteq> [] then '': '' else []) @
     html_escape answer_text @
     ''</p>\<newline>'' @
     ''  <hr/>\<newline>'' @
     ''</div>''\<close>

definition chapter_xhtml :: "string \<Rightarrow> string list \<Rightarrow> string" where
  \<comment> \<open>lines 121 to 134\<close>
  \<open>chapter_xhtml domain q_blocks =
     ''<?xml version="1.0" encoding="utf-8"?>\<newline>'' @
     ''<!DOCTYPE html>\<newline>'' @
     ''<html xmlns="http://www.w3.org/1999/xhtml" xml:lang="en">\<newline>'' @
     ''<head>\<newline>'' @
     ''  <title>'' @
     html_escape domain @
     ''</title>\<newline>'' @
     ''  <link rel="stylesheet" type="text/css" href="../styles/style.css"/>\<newline>'' @
     ''</head>\<newline>'' @
     ''<body>\<newline>'' @
     ''  <p class="domain">'' @
     html_escape domain @
     ''</p>\<newline>'' @
     ''  <h1>'' @
     html_escape domain @
     ''</h1>\<newline>'' @
     py_join [CHR ''\<newline>''] q_blocks @
     ''\<newline>'' @
     ''</body>\<newline>'' @
     ''</html>\<newline>''\<close>

definition nav_entry :: "string \<times> string \<Rightarrow> string" where
  \<open>nav_entry item =
     ''      <li><a href="'' @
     html_escape (snd item) @
     ''">'' @
     html_escape (fst item) @
     ''</a></li>\<newline>''\<close>

definition nav_xhtml :: "(string \<times> string) list \<Rightarrow> string" where
  \<open>nav_xhtml nav =
     ''<?xml version="1.0" encoding="utf-8"?>\<newline>'' @
     ''<!DOCTYPE html>\<newline>'' @
     ''<html xmlns="http://www.w3.org/1999/xhtml" xmlns:epub="http://www.idpf.org/2007/ops" xml:lang="en">\<newline>'' @
     ''<head>\<newline>'' @
     ''  <title>Table of Contents</title>\<newline>'' @
     ''  <link rel="stylesheet" type="text/css" href="styles/style.css"/>\<newline>'' @
     ''</head>\<newline>'' @
     ''<body>\<newline>'' @
     ''  <nav epub:type="toc" id="toc">\<newline>'' @
     ''    <h1>Contents</h1>\<newline>'' @
     ''    <ol>\<newline>'' @
     concat (map nav_entry nav) @
     ''    </ol>\<newline>'' @
     ''  </nav>\<newline>'' @
     ''</body>\<newline>'' @
     ''</html>\<newline>''\<close>

definition ncx_navpoint :: "nat \<Rightarrow> string \<times> string \<Rightarrow> string" where
  \<open>ncx_navpoint i item =
     ''    <navPoint id="navPoint-'' @
     py_str i @
     ''" playOrder="'' @
     py_str i @
     ''">\<newline>'' @
     ''      <navLabel><text>'' @
     html_escape (fst item) @
     ''</text></navLabel>\<newline>'' @
     ''      <content src="'' @
     html_escape (snd item) @
     ''"/>\<newline>'' @
     ''    </navPoint>\<newline>''\<close>

definition toc_ncx :: "string \<Rightarrow> string \<Rightarrow> string list \<Rightarrow> string" where
  \<open>toc_ncx book_id title ncx_navpoints =
     ''<?xml version="1.0" encoding="UTF-8"?>\<newline>'' @
     ''<!DOCTYPE ncx PUBLIC "-//NISO//DTD ncx 2005-1//EN" "http://www.daisy.org/z3986/2005/ncx-2005-1.dtd">\<newline>'' @
     ''<ncx xmlns="http://www.daisy.org/z3986/2005/ncx/" version="2005-1">\<newline>'' @
     ''  <head>\<newline>'' @
     ''    <meta name="dtb:uid" content="'' @
     book_id @
     ''"/>\<newline>'' @
     ''  </head>\<newline>'' @
     ''  <docTitle><text>'' @
     html_escape title @
     ''</text></docTitle>\<newline>'' @
     ''  <navMap>\<newline>'' @
     concat ncx_navpoints @
     ''  </navMap>\<newline>'' @
     ''</ncx>\<newline>''\<close>

definition content_opf :: "string \<Rightarrow> string \<Rightarrow> string \<Rightarrow> string list \<Rightarrow> string list \<Rightarrow> string" where
  \<open>content_opf book_id now title manifest spine =
     ''<?xml version="1.0" encoding="UTF-8"?>\<newline>'' @
     ''<package xmlns="http://www.idpf.org/2007/opf" unique-identifier="bookid" version="3.0">\<newline>'' @
     ''  <metadata xmlns:dc="http://purl.org/dc/elements/1.1/">\<newline>'' @
     ''    <dc:identifier id="bookid">urn:uuid:'' @
     book_id @
     ''</dc:identifier>\<newline>'' @
     ''    <dc:title>'' @
     html_escape title @
     ''</dc:title>\<newline>'' @
     ''    <dc:language>'' @
     html_escape ''en'' @
     ''</dc:language>\<newline>'' @
     ''    <dc:creator>'' @
     html_escape ''GRCJP'' @
     ''</dc:creator>\<newline>'' @
     ''    <dc:date>'' @
     html_escape now @
     ''</dc:date>\<newline>'' @
     ''  </metadata>\<newline>'' @
     ''  <manifest>\<newline>'' @
     concat (map (\<lambda>line. ''    '' @ line @ [CHR ''\<newline>'']) manifest) @
     ''  </manifest>\<newline>'' @
     ''  <spine toc="ncx">\<newline>'' @
     concat (map (\<lambda>line. ''    '' @ line @ [CHR ''\<newline>'']) spine) @
     ''  </spine>\<newline>'' @
     ''</package>\<newline>''\<close>

subsection \<open>Grouping by domain\<close>

text \<open>
  Lines 30 to 36. \<open>domains\<close> is a dictionary in insertion order. A key that is not a
  string raises \<open>TypeError\<close> before anything else happens: a list or a dictionary
  cannot be hashed by \<open>setdefault\<close>, and \<open>_slugify\<close> on line 36 iterates over any
  other key. The model raises at the question that brings such a key.
\<close>

fun setdefault_append :: "string \<Rightarrow> dict \<Rightarrow> (string \<times> dict list) list \<Rightarrow> (string \<times> dict list) list" where
  "setdefault_append k q [] = [(k, [q])]"
| "setdefault_append k q ((k', items) # rest) =
     (if k' = k then (k', items @ [q]) # rest else (k', items) # setdefault_append k q rest)"

fun group_domains :: "dict list \<Rightarrow> (string \<times> dict list) list \<Rightarrow> error + (string \<times> dict list) list" where
  "group_domains [] domains = Inr domains"
| "group_domains (q # qs) domains =
     (case dict_get_default q ''domain'' (JStr ''Uncategorized'') of
        JStr d \<Rightarrow> group_domains qs (setdefault_append d q domains)
      | _ \<Rightarrow> Inl TypeError)"

definition slug_of :: "string \<Rightarrow> string" where
  \<comment> \<open>\<open>_slugify(domain) or 'domain'\<close>\<close>
  "slug_of domain = (if slugify domain \<noteq> [] then slugify domain else ''domain'')"

definition domain_items_of :: "(string \<times> dict list) list \<Rightarrow> (string \<times> string) list" where
  "domain_items_of domains = map (\<lambda>(domain, items). (domain, slug_of domain)) domains"

subsection \<open>One question\<close>

text \<open>Lines 103 to 107: the first choice whose \<open>correct\<close> is \<open>True\<close>. A choice that is
  not a dictionary has no \<open>get\<close>.\<close>

fun first_correct :: "json list \<Rightarrow> error + dict option" where
  "first_correct [] = Inr None"
| "first_correct (c # cs) =
     (case c of
        JObj d \<Rightarrow> if dict_get d ''correct'' = JBool True then Inr (Some d) else first_correct cs
      | _ \<Rightarrow> Inl AttributeError)"

definition correct_choice_of :: "json \<Rightarrow> error + dict option" where
  \<comment> \<open>the loop over \<open>q.get('choices') or []\<close>: a dictionary yields its keys and a string
      its characters, which have no \<open>get\<close>; a number or \<open>True\<close> cannot be iterated\<close>
  "correct_choice_of v =
     (case v of
        JArr cs \<Rightarrow> first_correct cs
      | JObj kvs \<Rightarrow> if kvs = [] then Inr None else Inl AttributeError
      | JStr s \<Rightarrow> if s = [] then Inr None else Inl AttributeError
      | _ \<Rightarrow> Inl TypeError)"

definition qa_block :: "dict \<Rightarrow> error + string" where
  \<comment> \<open>lines 100 to 119\<close>
  "qa_block q =
     (let qid = py_or (dict_get q ''id'') (JStr [])
      in case strip_value (py_or (dict_get q ''question'') (JStr [])) of
           Inl e \<Rightarrow> Inl e
         | Inr question_text \<Rightarrow>
            (case correct_choice_of (py_or (dict_get q ''choices'') (JArr [])) of
               Inl e \<Rightarrow> Inl e
             | Inr correct_choice \<Rightarrow>
                let chosen = (case correct_choice of None \<Rightarrow> [] | Some c \<Rightarrow> c);
                    answer_text = py_or (dict_get chosen ''text'') (JStr []);
                    answer_id = py_or (dict_get chosen ''id'') (JStr [])
                in (case (qid, answer_id, answer_text) of
                      (JStr qid', JStr answer_id', JStr answer_text') \<Rightarrow>
                         Inr (qa_markup qid' question_text answer_id' answer_text')
                    | _ \<Rightarrow> Inl AttributeError)))"

fun qa_blocks :: "dict list \<Rightarrow> error + string list" where
  "qa_blocks [] = Inr []"
| "qa_blocks (q # qs) =
     (case qa_block q of
        Inl e \<Rightarrow> Inl e
      | Inr b \<Rightarrow> (case qa_blocks qs of Inl e \<Rightarrow> Inl e | Inr bs \<Rightarrow> Inr (b # bs)))"

subsection \<open>The loop over the domains and the archive\<close>

definition two_digits :: "nat \<Rightarrow> string" where
  \<comment> \<open>\<open>f'{idx:02d}'\<close>\<close>
  "two_digits n = (if n < 10 then CHR ''0'' # py_str n else py_str n)"

record book =
  nav_items :: "(string \<times> string) list"
  manifest_items :: "string list"
  spine_items :: "string list"
  chapters :: "(string \<times> string) list"

fun chapter_loop :: "(string \<times> dict list) list \<Rightarrow> nat \<Rightarrow> (string \<times> string) list \<Rightarrow> book \<Rightarrow> error + book" where
  "chapter_loop domains idx [] b = Inr b"
| "chapter_loop domains idx ((domain, slug) # rest) b =
     (let file_name = ''text/'' @ two_digits idx @ ''-'' @ slug @ ''.xhtml'';
          item_id = ''domain'' @ two_digits idx
      in case map_of domains domain of
           None \<Rightarrow> Inl KeyError
         | Some items \<Rightarrow>
            (case qa_blocks items of
               Inl e \<Rightarrow> Inl e
             | Inr q_blocks \<Rightarrow>
                chapter_loop domains (Suc idx) rest
                  \<lparr>nav_items = nav_items b @ [(domain, file_name)],
                   manifest_items = manifest_items b @ [manifest_item item_id file_name],
                   spine_items = spine_items b @ [spine_item item_id],
                   chapters = AList.update file_name (chapter_xhtml domain q_blocks) (chapters b)\<rparr>))"

datatype compress_type = ZIP_STORED | ZIP_DEFLATED

text \<open>
  What \<open>build_epub\<close> reads from its surroundings: the fresh UUID, the time stamp, and
  the icon file when it exists. The archive is the list of the entries written, in
  order: name, compression and content. \<open>ZipFile(out_path, 'w')\<close> is opened with the
  default compression \<open>ZIP_STORED\<close>, which \<open>zf.write\<close> uses for the icon as no
  \<open>compress_type\<close> is passed.
\<close>

record env =
  book_id :: string
  now :: string
  icon :: "string option"

type_synonym archive = "(string \<times> compress_type \<times> string) list"

definition initial_book :: book where
  \<open>initial_book =
     \<lparr>nav_items = [], manifest_items = manifest_head,
      spine_items = [''<itemref idref="title"/>''], chapters = []\<rparr>\<close>

definition write_archive :: "env \<Rightarrow> string \<Rightarrow> book \<Rightarrow> archive" where
  "write_archive ev title b =
     [(''mimetype'', ZIP_STORED, ''application/epub+zip''),
      (''META-INF/container.xml'', ZIP_DEFLATED, container_xml),
      (''OEBPS/content.opf'', ZIP_DEFLATED,
         content_opf (book_id ev) (now ev) title (manifest_items b) (spine_items b)),
      (''OEBPS/toc.ncx'', ZIP_DEFLATED,
         toc_ncx (book_id ev) title
           (map (\<lambda>(i, item). ncx_navpoint i item) (enumerate 1 (nav_items b)))),
      (''OEBPS/nav.xhtml'', ZIP_DEFLATED, nav_xhtml (nav_items b)),
      (''OEBPS/styles/style.css'', ZIP_DEFLATED, style_css)]
     @ (case icon ev of None \<Rightarrow> [] | Some svg \<Rightarrow> [(''OEBPS/pwa-icon.svg'', ZIP_STORED, svg)])
     @ [(''OEBPS/text/title.xhtml'', ZIP_DEFLATED, title_xhtml title)]
     @ map (\<lambda>(href, content). (''OEBPS/'' @ href, ZIP_DEFLATED, content)) (chapters b)"

definition build_book :: "dict list \<Rightarrow> error + book" where
  \<comment> \<open>lines 30 to 134: the grouping and the loop over the domains\<close>
  "build_book questions =
     (case group_domains questions [] of
        Inl e \<Rightarrow> Inl e
      | Inr domains \<Rightarrow> chapter_loop domains 1 (domain_items_of domains) initial_book)"

definition build_epub :: "env \<Rightarrow> dict list \<Rightarrow> string \<Rightarrow> error + archive" where
  "build_epub ev questions title =
     (case build_book questions of
        Inl e \<Rightarrow> Inl e
      | Inr b \<Rightarrow> Inr (write_archive ev title b))"

text \<open>A QuestionRecord as \<open>json.dumps\<close> writes it and \<open>json.loads\<close> reads it back.\<close>

definition choice_dict :: "choice \<Rightarrow> json" where
  "choice_dict c =
     JObj [(''id'', JStr (c_id c)), (''text'', JStr (c_text c)), (''correct'', JBool (c_correct c))]"

definition question_dict :: "question \<Rightarrow> dict" where
  "question_dict q =
     [(''id'', JStr (q_id q)), (''domain'', JStr (q_domain q)), (''question'', JStr (q_question q)),
      (''choices'', JArr (map choice_dict (q_choices q))),
      (''explanation'', JStr (q_explanation q)), (''reference'', JStr (q_reference q))]"

section \<open>Notions used in the statements\<close>

text \<open>A block has the answer marker, and the first choice marker, when the searches
  of the loop body succeed on it.\<close>

definition has_answer_marker :: "string \<Rightarrow> bool" where
  "has_answer_marker content = (re_search answer_marker None content \<noteq> None)"

definition has_choice_a :: "string \<Rightarrow> bool" where
  "has_choice_a content = (re_search stem_and_rest None content \<noteq> None)"

text \<open>What both parser variants can be compared on: everything but the choice texts,
  the correct flags and the explanation.\<close>

definition record_key :: "question \<Rightarrow> string \<times> string \<times> string \<times> string list \<times> string" where
  "record_key r = (q_id r, q_domain r, q_question r, map c_id (q_choices r), q_reference r)"







text \<open>The string under which a question is grouped.\<close>

definition domain_key :: "dict \<Rightarrow> string" where
  "domain_key q =
     (case dict_get_default q ''domain'' (JStr ''Uncategorized'') of JStr d \<Rightarrow> d | _ \<Rightarrow> [])"

text \<open>The paragraphs \<open>_as_paragraphs\<close> renders.\<close>

definition paragraph_parts :: "string \<Rightarrow> string list" where
  "paragraph_parts text0 =
     (if strip text0 = [] then []
      else map strip (filter (\<lambda>p. strip p \<noteq> []) (split_blank_line (strip text0))))"




definition domain_ok :: "dict \<Rightarrow> bool" where
  "domain_ok q = (case map_of q ''domain'' of None \<Rightarrow> True | Some (JStr d) \<Rightarrow> True | Some _ \<Rightarrow> False)"





subsection \<open>Reading the markup of a document\<close>

text \<open>
  A scanner for the text of a document. In text, \<open><\<close> opens a tag, \<open>&\<close> opens a
  character reference, which must be one of the five \<open>html.escape\<close> writes and end with
  \<open>;\<close>, and \<open>>\<close>, the double quote and the single quote are malformed. In a tag, \<open>>\<close>
  closes it and a double quote opens an attribute value, which runs to the next double
  quote and may hold neither \<open><\<close>, \<open>>\<close>, a single quote nor \<open>&\<close> outside a character
  reference. The scanner collects the tags, without the attribute values.
  \<open>markup_tags\<close> gives them for a document that ends in text and is nowhere malformed.
\<close>

datatype scan_mode = InText | InTag string | InQuote string | InEntity "string option" string
  | Malformed

definition is_entity :: "string \<Rightarrow> bool" where
  "is_entity e = (e \<in> set [''amp'', ''lt'', ''gt'', ''quot'', ''#x27''])"

fun scan_step :: "scan_mode \<times> string list \<Rightarrow> char \<Rightarrow> scan_mode \<times> string list" where
  "scan_step (InText, ts) c =
     (if c = CHR ''<'' then (InTag [], ts)
      else if c = CHR ''&'' then (InEntity None [], ts)
      else if c = CHR ''>'' \<or> c = CHR 0x22 \<or> c = CHR 0x27 then (Malformed, ts)
      else (InText, ts))"
| "scan_step (InTag t, ts) c =
     (if c = CHR ''>'' then (InText, ts @ [t])
      else if c = CHR ''<'' then (Malformed, ts)
      else if c = CHR 0x22 then (InQuote (t @ [c]), ts)
      else (InTag (t @ [c]), ts))"
| "scan_step (InQuote t, ts) c =
     (if c = CHR 0x22 then (InTag (t @ [c]), ts)
      else if c = CHR ''&'' then (InEntity (Some t) [], ts)
      else if c = CHR ''<'' \<or> c = CHR ''>'' \<or> c = CHR 0x27 then (Malformed, ts)
      else (InQuote t, ts))"
| "scan_step (InEntity back e, ts) c =
     (if c = CHR '';''
      then (if is_entity e then (case back of None \<Rightarrow> InText | Some t \<Rightarrow> InQuote t) else Malformed, ts)
      else (InEntity back (e @ [c]), ts))"
| "scan_step (Malformed, ts) c = (Malformed, ts)"

definition markup_tags :: "string \<Rightarrow> string list option" where
  "markup_tags doc =
     (case foldl scan_step (InText, []) doc of (InText, ts) \<Rightarrow> Some ts | _ \<Rightarrow> None)"

text \<open>The tags of a chapter document as the templates of \<open>build_epub\<close> have them.\<close>

definition chapter_head_tags :: "string list" where
  \<open>chapter_head_tags =
     [''?xml version="" encoding=""?'', ''!DOCTYPE html'', ''html xmlns="" xml:lang=""'',
      ''head'', ''title'', ''/title'', ''link rel="" type="" href=""/'', ''/head'', ''body'',
      ''p class=""'', ''/p'', ''h1'', ''/h1'']\<close>

definition paragraph_tags :: "string \<Rightarrow> string list" where
  "paragraph_tags p = [''p''] @ replicate (count_list p (CHR ''\<newline>'')) ''br/'' @ [''/p'']"

definition question_tags :: "question \<Rightarrow> string list" where
  \<open>question_tags q =
     [''div class=""'', ''h2 id=""'', ''/h2'']
     @ concat (map paragraph_tags (paragraph_parts (strip (q_question q))))
     @ [''p class=""'', ''b'', ''/b'', ''/p'', ''hr/'', ''/div'']\<close>

definition chapter_foot_tags :: "string list" where
  "chapter_foot_tags = [''/body'', ''/html'']"

subsection \<open>Notions used in the proofs\<close>

text \<open>What \<open>html.escape\<close> makes of one character.\<close>

definition esc_char :: "char \<Rightarrow> string" where
  \<open>esc_char c =
     (if c = CHR ''&'' then ''&amp;''
      else if c = CHR ''<'' then ''&lt;''
      else if c = CHR ''>'' then ''&gt;''
      else if c = CHR 0x22 then ''&quot;''
      else if c = CHR 0x27 then ''&#x27;''
      else [c])\<close>

text \<open>Groups of dictionaries that can all be rendered.\<close>

definition rendering_groups :: "(string \<times> dict list) list \<Rightarrow> bool" where
  "rendering_groups ds = (\<forall>(k, items) \<in> set ds. \<forall>x \<in> set items. \<exists>b. qa_block x = Inr b)"

text \<open>Groups whose dictionaries are written from records of a given list, and chapter
  documents whose tags are those of the templates for some of these records.\<close>

definition record_groups :: "question list \<Rightarrow> (string \<times> dict list) list \<Rightarrow> bool" where
  "record_groups qs ds =
     (\<forall>(k, items) \<in> set ds. \<exists>qs'. items = map question_dict qs' \<and> set qs' \<subseteq> set qs)"

definition template_chapter :: "question list \<Rightarrow> string \<Rightarrow> bool" where
  "template_chapter qs doc =
     (\<exists>qs'. set qs' \<subseteq> set qs \<and>
        markup_tags doc = Some (chapter_head_tags @ concat (map question_tags qs') @ chapter_foot_tags))"

section \<open>Properties of the text primitives\<close>

lemma rstrip_Nil [simp]: "rstrip [] = []"
  by (simp add: rstrip_def)

lemma rstrip_Cons [simp]:
  "rstrip (x # xs) = (if rstrip xs = [] \<and> is_space x then [] else x # rstrip xs)"
  by (auto simp add: rstrip_def dropWhile_append)



















lemma lstrip_Nil [simp]: "lstrip [] = []"
  by (simp add: lstrip_def)





section \<open>Properties of the parser\<close>

subsection \<open>The loop\<close>

lemma parse_loop_eq:
  "parse_loop body bs acc =
     (if list_all (\<lambda>b. length (fst b) \<le> int_max_str_digits) bs
      then Inr (acc @ List.map_filter (\<lambda>(num, dm, ct). body (digits_value num) dm ct) bs)
      else Inl ValueError)"
proof (induction bs arbitrary: acc)
  case Nil
  then show ?case by (simp add: List.map_filter_simps)
next
  case (Cons b bs)
  obtain num dm ct where b: "b = (num, dm, ct)" by (cases b)
  show ?case
    unfolding b using Cons.IH
    by (simp add: py_int_def List.map_filter_simps split: option.splits)
qed

lemma re_search_Some:
  "re_search m prev xs = Some (p, g, r) \<Longrightarrow> \<exists>prev'. xs = p @ drop (length p) xs \<and> m prev' (drop (length p) xs) = Some (g, r)"
proof (induction xs arbitrary: prev p)
  case Nil
  then show ?case by auto
next
  case (Cons x xs)
  show ?case
  proof (cases "m prev (x # xs)")
    case None
    with Cons.prems obtain p' where p': "p = x # p'" "re_search m (Some x) xs = Some (p', g, r)"
      by auto
    from Cons.IH[OF p'(2)] p'(1) show ?thesis by auto
  next
    case (Some a)
    with Cons.prems show ?thesis by (cases a) auto
  qed
qed

lemma re_search_suffix:
  assumes indep: "\<And>p q ys. m p ys = m q ys"
  shows "re_search m q xs \<noteq> None \<Longrightarrow> re_search m p (pre @ xs) \<noteq> None"
proof (induction pre arbitrary: p)
  case Nil
  have "re_search m p xs = re_search m q xs" for p q
  proof (induction xs arbitrary: p q)
    case Nil
    then show ?case using indep[of p "[]" q] by simp
  next
    case (Cons x xs)
    then show ?case using indep[of p "x # xs" q] by (simp split: option.splits)
  qed
  with Nil show ?case by (metis append_Nil)
next
  case (Cons a pre)
  from Cons.IH[OF Cons.prems, of "Some a"] show ?case
    by (cases "m p (a # pre @ xs)") auto
qed

lemma lit_Some: "lit p xs = Some r \<Longrightarrow> xs = p @ r"
  by (induction p xs rule: lit.induct) (auto split: if_splits)

lemma skip_ws_suffix: "\<exists>pre. xs = pre @ skip_ws xs"
  unfolding skip_ws_def by (metis takeWhile_dropWhile_id)

lemma stem_and_rest_from_suffix:
  "stem_and_rest_from xs = Some (g1, g2) \<Longrightarrow> \<exists>pre. xs = pre @ g2"
proof (induction xs arbitrary: g1)
  case Nil
  then show ?case by (auto simp: skip_ws_def split: option.splits)
next
  case (Cons x xs)
  show ?case
  proof (cases "lit ''A.'' (skip_ws (x # xs))")
    case None
    with Cons.prems obtain g where "stem_and_rest_from xs = Some (g, g2)" by auto
    from Cons.IH[OF this] obtain pre where "xs = pre @ g2" by blast
    then have "x # xs = (x # pre) @ g2" by simp
    then show ?thesis by blast
  next
    case (Some r)
    with Cons.prems have g2: "g2 = skip_ws r" by simp
    obtain p1 where p1: "x # xs = p1 @ skip_ws (x # xs)" using skip_ws_suffix by blast
    obtain p2 where p2: "r = p2 @ skip_ws r" using skip_ws_suffix by blast
    from lit_Some[OF Some] have "skip_ws (x # xs) = ''A.'' @ r" .
    then have "x # xs = (p1 @ ''A.'' @ p2) @ g2"
      using p1 p2 g2 by (metis append.assoc)
    then show ?thesis by blast
  qed
qed

lemma answer_marker_indep: "answer_marker p ys = answer_marker q ys"
  by (simp add: answer_marker_def)

lemma answer_marker_letter:
  assumes "answer_marker prev xs = Some (l, r)"
  shows "is_choice_letter l"
proof -
  from assms obtain r1 where
    "(case skip_ws r1 of [] \<Rightarrow> None
      | x # r2 \<Rightarrow> if is_choice_letter x then Some (x, r2) else None) = Some (l, r)"
    unfolding answer_marker_def by (auto simp: Option.bind_eq_Some_conv)
  then show ?thesis by (cases "skip_ws r1") (auto split: if_splits)
qed

lemma stem_rest_has_answer:
  assumes "re_search stem_and_rest None content = Some (p, (g1, rest), r)"
    and "re_search answer_marker None rest \<noteq> None"
  shows "has_answer_marker content"
proof -
  from re_search_Some[OF assms(1)] obtain prev' where
    d: "content = p @ drop (length p) content"
    and m: "stem_and_rest prev' (drop (length p) content) = Some ((g1, rest), r)" by blast
  from m have "stem_and_rest_from (drop (length p) content) = Some (g1, rest)"
    by (auto simp: stem_and_rest_def)
  from stem_and_rest_from_suffix[OF this] obtain pre where
    "drop (length p) content = pre @ rest" by blast
  with d have "content = (p @ pre) @ rest" by simp
  moreover have "re_search answer_marker None ((p @ pre) @ rest) \<noteq> None"
    using re_search_suffix[of answer_marker None rest None "p @ pre"] assms(2) answer_marker_indep
    by blast
  ultimately show ?thesis by (simp add: has_answer_marker_def)
qed

subsection \<open>The loop bodies\<close>

lemma make_choices_ids: "map c_id (make_choices l a b c d) = [''A'', ''B'', ''C'', ''D'']"
  by (simp add: make_choices_def)

lemma block_baseline_None_iff:
  "block_baseline n dm ct = None \<longleftrightarrow> \<not> has_answer_marker ct \<or> \<not> has_choice_a ct"
proof (cases "re_search answer_marker None ct")
  case None
  then show ?thesis by (simp add: block_baseline_def has_answer_marker_def)
next
  case a: (Some x)
  show ?thesis
  proof (cases "re_search stem_and_rest None ct")
    case None
    with a show ?thesis
      by (simp add: block_baseline_def has_choice_a_def split: prod.splits)
  next
    case (Some y)
    with a show ?thesis
      by (simp add: block_baseline_def has_choice_a_def has_answer_marker_def Let_def
          split: prod.splits)
  qed
qed


lemma block_fixed_Some:
  assumes "block_fixed n dm ct = Some r"
  shows "\<exists>p g1 g2 rr. re_search stem_and_rest None ct = Some (p, (g1, g2), rr) \<and>
           re_search answer_marker None g2 \<noteq> None \<and>
           record_key r = (''Q'' @ py_str n, dm, strip g1, [''A'', ''B'', ''C'', ''D''], [])"
proof -
  from assms obtain y where s: "re_search stem_and_rest None ct = Some y"
    by (cases "re_search stem_and_rest None ct") (auto simp: block_fixed_def)
  obtain p g1 g2 rr where y: "y = (p, (g1, g2), rr)" by (cases y) auto
  have a: "re_search answer_marker None g2 \<noteq> None"
  proof
    assume "re_search answer_marker None g2 = None"
    with assms show False unfolding block_fixed_def s y by (simp add: Let_def)
  qed
  from assms have "record_key r = (''Q'' @ py_str n, dm, strip g1, [''A'', ''B'', ''C'', ''D''], [])"
    unfolding block_fixed_def s y
    by (auto simp: Let_def record_key_def make_choices_ids split: if_splits)
  with s y a show ?thesis by blast
qed

lemma block_fixed_no_answer:
  "\<not> has_answer_marker ct \<Longrightarrow> block_fixed n dm ct = None"
proof (rule ccontr)
  assume na: "\<not> has_answer_marker ct" and "block_fixed n dm ct \<noteq> None"
  then obtain r where "block_fixed n dm ct = Some r" by auto
  from block_fixed_Some[OF this] stem_rest_has_answer na show False by blast
qed



lemma map_filter_length:
  "length (List.map_filter f bs) = length bs - length (filter (\<lambda>b. f b = None) bs)"
proof (induction bs)
  case Nil
  then show ?case by (simp add: List.map_filter_simps)
next
  case (Cons b bs)
  have "length (filter (\<lambda>b. f b = None) bs) \<le> length bs" by simp
  with Cons show ?case by (cases "f b") (auto simp: List.map_filter_simps Suc_diff_le)
qed



lemma baseline_valid_block:
  assumes "has_answer_marker content" and "has_choice_a content"
  shows "\<exists>r p l rr. block_baseline n domain content = Some r \<and>
           re_search answer_marker None content = Some (p, l, rr) \<and>
           length (q_choices r) = 4 \<and>
           map c_id (filter c_correct (q_choices r)) = [[l]]"
proof -
  from assms(1) obtain p l rr where a: "re_search answer_marker None content = Some (p, l, rr)"
    by (auto simp: has_answer_marker_def)
  from assms(2) obtain p' g1 g2 rr' where
    s: "re_search stem_and_rest None content = Some (p', (g1, g2), rr')"
    by (auto simp: has_choice_a_def)
  from re_search_Some[OF a] answer_marker_letter have "is_choice_letter l" by blast
  then have l: "l = CHR ''A'' \<or> l = CHR ''B'' \<or> l = CHR ''C'' \<or> l = CHR ''D''"
    by (simp add: is_choice_letter_def)
  obtain r where r: "block_baseline n domain content = Some r"
    and c: "q_choices r = make_choices l
        (group_text (re_search (choice_to ''A.'' ''B.'') None content))
        (group_text (re_search (choice_to ''B.'' ''C.'') None content))
        (group_text (re_search (choice_to ''C.'' ''D.'') None content))
        (group_text (re_search choice_d_baseline None content))"
    unfolding block_baseline_def a s by (simp add: Let_def)
  from l have "length (q_choices r) = 4 \<and> map c_id (filter c_correct (q_choices r)) = [[l]]"
    unfolding c make_choices_def by auto
  with r a show ?thesis by auto
qed

text \<open>Both scripts return unless a header number has more digits than \<open>int\<close>
  converts.\<close>

lemma parse_questions_returns:
  assumes "list_all (\<lambda>(num, domain, content). length num \<le> int_max_str_digits) (question_blocks t)"
  shows "\<exists>bs fs. parse_questions_baseline t = Inr bs \<and> parse_questions_fixed t = Inr fs"
proof -
  from assms have "list_all (\<lambda>b. length (fst b) \<le> int_max_str_digits) (question_blocks t)"
    by (simp add: list_all_iff case_prod_unfold)
  then show ?thesis
    by (simp add: parse_questions_baseline_def parse_questions_fixed_def parse_loop_eq)
qed

subsection \<open>Three sample texts, evaluated\<close>

lemma sample_valid_fixed:
  "parse_questions_fixed
     ''Question #: 1 - [Access Control]\<newline>Which one? A. foo B. bar C. baz D. qux\<newline>Answer: B\<newline>Because.''
   = Inr []"
  by code_simp

lemma sample_valid_baseline:
  "parse_questions_baseline
     ''Question #: 1 - [Access Control]\<newline>Which one? A. foo B. bar C. baz D. qux\<newline>Answer: B\<newline>Because.''
   = Inr [\<lparr>q_id = ''Q1'', q_domain = ''Access Control'', q_question = ''Which one?'',
          q_choices =
            [\<lparr>c_id = ''A'', c_text = ''foo'', c_correct = False\<rparr>,
             \<lparr>c_id = ''B'', c_text = ''bar'', c_correct = True\<rparr>,
             \<lparr>c_id = ''C'', c_text = ''baz'', c_correct = False\<rparr>,
             \<lparr>c_id = ''D'', c_text = ''qux'', c_correct = False\<rparr>],
          q_explanation = ''Because.'', q_reference = []\<rparr>]"
  by code_simp

lemma sample_valid_blocks:
  "question_blocks
     ''Question #: 1 - [Access Control]\<newline>Which one? A. foo B. bar C. baz D. qux\<newline>Answer: B\<newline>Because.''
   = [(''1'', ''Access Control'', ''Which one? A. foo B. bar C. baz D. qux\<newline>Answer: B\<newline>Because.'')]"
  by code_simp




section \<open>Properties of the book builder\<close>

subsection \<open>Grouping and the lists of the loop\<close>






subsection \<open>Typed records\<close>

lemma py_or_str [simp]: "py_or (JStr s) (JStr []) = JStr s"
  by (simp add: py_or_def)

lemma py_or_arr [simp]: "py_or (JArr xs) (JArr []) = JArr xs"
  by (simp add: py_or_def)

lemma py_or_null [simp]: "py_or JNull v = v"
  by (simp add: py_or_def)

lemma first_correct_typed:
  "first_correct (map choice_dict cs) =
     Inr (case find c_correct cs of None \<Rightarrow> None
          | Some c \<Rightarrow> Some [(''id'', JStr (c_id c)), (''text'', JStr (c_text c)),
                            (''correct'', JBool (c_correct c))])"
  by (induction cs) (auto simp: choice_dict_def dict_get_def)

lemma qa_block_typed:
  "qa_block (question_dict q) =
     Inr (qa_markup (q_id q) (strip (q_question q))
            (case find c_correct (q_choices q) of None \<Rightarrow> [] | Some c \<Rightarrow> c_id c)
            (case find c_correct (q_choices q) of None \<Rightarrow> [] | Some c \<Rightarrow> c_text c))"
proof -
  have g: "dict_get (question_dict q) ''id'' = JStr (q_id q)"
    "dict_get (question_dict q) ''question'' = JStr (q_question q)"
    "dict_get (question_dict q) ''choices'' = JArr (map choice_dict (q_choices q))"
    by (simp_all add: question_dict_def dict_get_def)
  show ?thesis
    unfolding qa_block_def g
    by (cases "find c_correct (q_choices q)")
       (simp_all add: strip_value_def correct_choice_of_def first_correct_typed dict_get_def)
qed

lemma qa_blocks_typed:
  "qa_blocks (map question_dict qs) =
     Inr (map (\<lambda>q. qa_markup (q_id q) (strip (q_question q))
            (case find c_correct (q_choices q) of None \<Rightarrow> [] | Some c \<Rightarrow> c_id c)
            (case find c_correct (q_choices q) of None \<Rightarrow> [] | Some c \<Rightarrow> c_text c)) qs)"
  by (induction qs) (simp_all add: qa_block_typed)

lemma rendering_setdefault_append:
  "rendering_groups ds \<Longrightarrow> \<exists>b. qa_block q = Inr b \<Longrightarrow>
     rendering_groups (setdefault_append k q ds)"
  by (induction ds) (fastforce simp: rendering_groups_def split: if_splits)+

lemma domain_ok_get:
  "domain_ok q \<Longrightarrow> dict_get_default q ''domain'' (JStr ''Uncategorized'') = JStr (domain_key q)"
  by (auto simp: domain_ok_def domain_key_def dict_get_default_def split: option.splits json.splits)

lemma group_domains_rendering:
  "rendering_groups acc \<Longrightarrow> \<forall>q \<in> set qs. domain_ok q \<and> (\<exists>b. qa_block q = Inr b) \<Longrightarrow>
     \<exists>ds. group_domains qs acc = Inr ds \<and> rendering_groups ds"
proof (induction qs arbitrary: acc)
  case Nil
  then show ?case by simp
next
  case (Cons q qs)
  from Cons.prems(2) have d: "dict_get_default q ''domain'' (JStr ''Uncategorized'') = JStr (domain_key q)"
    and r: "\<exists>b. qa_block q = Inr b" and rest: "\<forall>q \<in> set qs. domain_ok q \<and> (\<exists>b. qa_block q = Inr b)"
    by (auto simp: domain_ok_get)
  from Cons.IH[OF rendering_setdefault_append[OF Cons.prems(1) r] rest] d show ?case by simp
qed

lemma qa_blocks_rendering:
  "\<forall>x \<in> set items. \<exists>b. qa_block x = Inr b \<Longrightarrow> \<exists>bs. qa_blocks items = Inr bs"
  by (induction items) auto

lemma chapter_loop_rendering:
  "rendering_groups domains \<Longrightarrow> set (map fst items) \<subseteq> set (map fst domains) \<Longrightarrow>
     \<exists>b'. chapter_loop domains idx items b = Inr b'"
proof (induction items arbitrary: idx b)
  case Nil
  then show ?case by simp
next
  case (Cons it items)
  obtain d s where it: "it = (d, s)" by (cases it)
  from Cons.prems(2) it have "d \<in> set (map fst domains)" by simp
  then obtain l where l: "map_of domains d = Some l"
    by (metis map_of_eq_None_iff not_None_eq set_map)
  then have "(d, l) \<in> set domains" by (rule map_of_SomeD)
  with Cons.prems(1) have "\<forall>x \<in> set l. \<exists>b. qa_block x = Inr b"
    by (auto simp: rendering_groups_def)
  from qa_blocks_rendering[OF this] obtain bs where bs: "qa_blocks l = Inr bs" by blast
  from Cons.prems(2) have "set (map fst items) \<subseteq> set (map fst domains)" by simp
  from Cons.IH[OF Cons.prems(1) this] l bs show ?case
    unfolding it by (simp add: Let_def)
qed

lemma build_book_rendering:
  assumes "\<forall>q \<in> set qs. domain_ok q \<and> (\<exists>b. qa_block q = Inr b)"
  shows "\<exists>b. build_book qs = Inr b"
proof -
  have "rendering_groups []" by (simp add: rendering_groups_def)
  from group_domains_rendering[OF this assms] obtain ds where
    g: "group_domains qs [] = Inr ds" and t: "rendering_groups ds" by blast
  have "map fst (domain_items_of ds) = map fst ds"
    by (induction ds) (auto simp: domain_items_of_def)
  then have "set (map fst (domain_items_of ds)) \<subseteq> set (map fst ds)"
    by simp
  from chapter_loop_rendering[OF t this] g show ?thesis
    by (simp add: build_book_def)
qed

lemma question_dict_domain_ok: "domain_ok (question_dict q)"
  by (simp add: domain_ok_def question_dict_def)

lemma build_book_typed: "\<exists>b. build_book (map question_dict qs) = Inr b"
  by (rule build_book_rendering) (auto simp: question_dict_domain_ok qa_block_typed)

subsection \<open>Questions with missing fields\<close>







subsection \<open>Scanning escaped text\<close>

lemma replace_char_Nil [simp]: "replace_char c r [] = []"
  by (simp add: replace_char_def)

lemma replace_char_Cons [simp]:
  "replace_char c r (x # xs) = (if x = c then r else [x]) @ replace_char c r xs"
  by (simp add: replace_char_def)

lemma replace_char_append [simp]:
  "replace_char c r (xs @ ys) = replace_char c r xs @ replace_char c r ys"
  by (simp add: replace_char_def)

lemma html_escape_Nil [simp]: "html_escape [] = []"
  by (simp add: html_escape_def)

lemma html_escape_Cons: "html_escape (x # xs) = esc_char x @ html_escape xs"
  by (simp add: html_escape_def esc_char_def)

lemma scan_esc_char_text: "foldl scan_step (InText, ts) (esc_char x) = (InText, ts)"
  by (simp add: esc_char_def is_entity_def)

lemma scan_esc_char_quote: "foldl scan_step (InQuote t, ts) (esc_char x) = (InQuote t, ts)"
  by (simp add: esc_char_def is_entity_def)

lemma scan_escape_text: "foldl scan_step (InText, ts) (html_escape s) = (InText, ts)"
  by (induction s) (simp_all add: html_escape_Cons scan_esc_char_text)

lemma scan_escape_quote: "foldl scan_step (InQuote t, ts) (html_escape s) = (InQuote t, ts)"
  by (induction s) (simp_all add: html_escape_Cons scan_esc_char_quote)

lemma br_esc_char:
  \<open>replace_char (CHR ''\<newline>'') ''<br/>'' (esc_char x)
     = (if x = CHR ''\<newline>'' then ''<br/>'' else esc_char x)\<close>
  by (simp add: esc_char_def)

lemma scan_br: \<open>foldl scan_step (InText, ts) ''<br/>'' = (InText, ts @ [''br/''])\<close>
  by simp

lemma scan_lines:
  \<open>foldl scan_step (InText, ts) (replace_char (CHR ''\<newline>'') ''<br/>'' (html_escape p))
     = (InText, ts @ replicate (count_list p (CHR ''\<newline>'')) ''br/'')\<close>
proof (induction p arbitrary: ts)
  case Nil
  then show ?case by simp
next
  case (Cons x p)
  show ?case
  proof (cases "x = CHR ''\<newline>''")
    case True
    then show ?thesis
      using Cons.IH[of "ts @ [''br/'']"]
      by (simp add: html_escape_Cons br_esc_char del: replace_char_Cons)
  next
    case False
    then show ?thesis
      using Cons.IH[of ts]
      by (simp add: html_escape_Cons br_esc_char scan_esc_char_text del: replace_char_Cons)
  qed
qed

lemma scan_paragraph:
  \<open>foldl scan_step (InText, ts)
      (''<p>'' @ replace_char (CHR ''\<newline>'') ''<br/>'' (html_escape p) @ ''</p>'')
     = (InText, ts @ paragraph_tags p)\<close>
  by (simp add: scan_lines paragraph_tags_def)

lemma scan_join:
  assumes "\<And>x ts. foldl scan_step (InText, ts) (f x) = (InText, ts @ g x)"
  shows "foldl scan_step (InText, ts) (py_join [CHR ''\<newline>''] (map f xs))
           = (InText, ts @ concat (map g xs))"
proof (induction xs arbitrary: ts)
  case Nil
  then show ?case by simp
next
  case (Cons x xs)
  show ?case
  proof (cases xs)
    case Nil
    then show ?thesis by (simp add: assms)
  next
    case (Cons y ys)
    with Cons.IH[of "ts @ g x"] show ?thesis by (simp add: assms)
  qed
qed

lemma as_paragraphs_join:
  \<open>as_paragraphs text0 =
     py_join [CHR ''\<newline>'']
       (map (\<lambda>p. ''<p>'' @ replace_char (CHR ''\<newline>'') ''<br/>'' (html_escape p) @ ''</p>'')
          (paragraph_parts text0))\<close>
  by (simp add: as_paragraphs_def paragraph_parts_def Let_def)

lemma scan_as_paragraphs:
  "foldl scan_step (InText, ts) (as_paragraphs text0)
     = (InText, ts @ concat (map paragraph_tags (paragraph_parts text0)))"
  unfolding as_paragraphs_join by (rule scan_join) (rule scan_paragraph)

lemma scan_qa_markup:
  \<open>foldl scan_step (InText, ts) (qa_markup qid question_text answer_id answer_text)
     = (InText, ts @ [''div class=""'', ''h2 id=""'', ''/h2'']
          @ concat (map paragraph_tags (paragraph_parts question_text))
          @ [''p class=""'', ''b'', ''/b'', ''/p'', ''hr/'', ''/div''])\<close>
  by (simp add: qa_markup_def scan_escape_text scan_escape_quote scan_as_paragraphs)

lemma scan_question:
  "foldl scan_step (InText, ts)
     (qa_markup (q_id q) (strip (q_question q)) answer_id answer_text)
   = (InText, ts @ question_tags q)"
  by (simp add: scan_qa_markup question_tags_def)

lemma scan_chapter:
  "foldl scan_step (InText, [])
     (chapter_xhtml domain (map (\<lambda>q. qa_markup (q_id q) (strip (q_question q)) (aid q) (atext q)) qs))
   = (InText, chapter_head_tags @ concat (map question_tags qs) @ chapter_foot_tags)"
proof -
  have j: "foldl scan_step (InText, ts)
      (py_join [CHR ''\<newline>'']
         (map (\<lambda>q. qa_markup (q_id q) (strip (q_question q)) (aid q) (atext q)) qs))
      = (InText, ts @ concat (map question_tags qs))" for ts
    by (rule scan_join) (rule scan_question)
  show ?thesis
    by (simp add: chapter_xhtml_def scan_escape_text j chapter_head_tags_def chapter_foot_tags_def)
qed

subsection \<open>The archive\<close>

lemma build_epub_Inr:
  "build_epub ev questions title = Inr a \<longleftrightarrow>
     (\<exists>b. build_book questions = Inr b \<and> a = write_archive ev title b)"
  by (auto simp: build_epub_def split: sum.splits)

lemma archive_compression:
  assumes "build_epub ev questions title = Inr a"
  shows "hd a = (''mimetype'', ZIP_STORED, ''application/epub+zip'') \<and>
         (\<forall>(name, c, content) \<in> set (tl a).
            c = ZIP_DEFLATED \<or> (name = ''OEBPS/pwa-icon.svg'' \<and> c = ZIP_STORED \<and> icon ev = Some content))"
proof -
  from assms obtain b where a: "a = write_archive ev title b"
    by (auto simp: build_epub_Inr)
  show ?thesis unfolding a write_archive_def
    by (cases "icon ev") auto
qed

lemma qa_block_lenient:
  assumes "dict_get q ''id'' = JNull \<or> (\<exists>s. dict_get q ''id'' = JStr s)"
    and "dict_get q ''question'' = JNull \<or> (\<exists>s. dict_get q ''question'' = JStr s)"
    and "dict_get q ''choices'' = JNull \<or> (\<exists>cs. dict_get q ''choices'' = JArr (map choice_dict cs))"
  shows "\<exists>b. qa_block q = Inr b"
proof -
  from assms(1) obtain s1 where s1: "py_or (dict_get q ''id'') (JStr []) = JStr s1"
    by auto
  from assms(2) obtain s2 where s2: "py_or (dict_get q ''question'') (JStr []) = JStr s2"
    by auto
  from assms(3) obtain cs where cs: "py_or (dict_get q ''choices'') (JArr []) = JArr (map choice_dict cs)"
    by auto
  show ?thesis
    unfolding qa_block_def s1 s2 cs
    by (cases "find c_correct cs")
       (simp_all add: strip_value_def correct_choice_of_def first_correct_typed dict_get_def)
qed

lemma scanner_rejects_raw_text:
  \<open>markup_tags ''<p>a < b</p>'' = None \<and> markup_tags ''<p>a & b</p>'' = None \<and>
   markup_tags ''<h2 id="Q"1">x</h2>'' \<noteq> markup_tags ''<h2 id="Q&quot;1">x</h2>'' \<and>
   markup_tags ''<p><i></p>'' = Some [''p'', ''i'', ''/p''] \<and>
   markup_tags ''<p>&lt;i&gt;</p>'' = Some [''p'', ''/p'']\<close>
  by code_simp

subsection \<open>The chapters of a book of records\<close>

lemma record_groups_setdefault_append:
  "record_groups qs ds \<Longrightarrow> q \<in> set qs \<Longrightarrow>
     record_groups qs (setdefault_append k (question_dict q) ds)"
proof (induction ds)
  case Nil
  have "[question_dict q] = map question_dict [q] \<and> set [q] \<subseteq> set qs"
    using Nil.prems(2) by simp
  then show ?case unfolding record_groups_def by (auto simp del: list.map)
next
  case (Cons g ds)
  obtain k' items where g: "g = (k', items)" by (cases g)
  from Cons.prems(1) have tl: "record_groups qs ds"
    and hd: "\<exists>qs'. items = map question_dict qs' \<and> set qs' \<subseteq> set qs"
    by (auto simp: record_groups_def g)
  show ?case
  proof (cases "k' = k")
    case True
    from hd obtain qs' where "items = map question_dict qs'" "set qs' \<subseteq> set qs" by blast
    then have "items @ [question_dict q] = map question_dict (qs' @ [q]) \<and>
        set (qs' @ [q]) \<subseteq> set qs"
      using Cons.prems(2) by simp
    then have "\<exists>qs''. items @ [question_dict q] = map question_dict qs'' \<and> set qs'' \<subseteq> set qs"
      by blast
    with True tl show ?thesis by (simp add: record_groups_def g)
  next
    case False
    with Cons.IH[OF tl Cons.prems(2)] hd show ?thesis
      by (simp add: record_groups_def g)
  qed
qed

lemma group_domains_records:
  "record_groups qs acc \<Longrightarrow> set ps \<subseteq> set qs \<Longrightarrow>
     group_domains (map question_dict ps) acc = Inr ds \<Longrightarrow> record_groups qs ds"
proof (induction ps arbitrary: acc)
  case Nil
  then show ?case by simp
next
  case (Cons p ps)
  have d: "dict_get_default (question_dict p) ''domain'' (JStr ''Uncategorized'') = JStr (q_domain p)"
    by (simp add: question_dict_def dict_get_default_def)
  from Cons.prems(2) have p: "p \<in> set qs" and ps: "set ps \<subseteq> set qs" by auto
  from Cons.prems(3) have "group_domains (map question_dict ps)
      (setdefault_append (q_domain p) (question_dict p) acc) = Inr ds"
    by (simp add: d)
  from Cons.IH[OF record_groups_setdefault_append[OF Cons.prems(1) p] ps this] show ?case .
qed

lemma update_member:
  "(k', v') \<in> set (AList.update k v al) \<Longrightarrow> (k', v') = (k, v) \<or> (k', v') \<in> set al"
  by (induction al) (auto split: if_splits)

lemma chapter_loop_chapters:
  assumes "record_groups qs domains"
  shows "chapter_loop domains idx items b = Inr b' \<Longrightarrow>
     \<forall>(file, doc) \<in> set (chapters b). template_chapter qs doc \<Longrightarrow>
     \<forall>(file, doc) \<in> set (chapters b'). template_chapter qs doc"
proof (induction items arbitrary: idx b)
  case Nil
  then show ?case by simp
next
  case (Cons it items)
  obtain d s where it: "it = (d, s)" by (cases it)
  from Cons.prems(1) obtain l bs where l: "map_of domains d = Some l"
    and bs: "qa_blocks l = Inr bs"
    and step: "chapter_loop domains (Suc idx) items
        \<lparr>nav_items = nav_items b @ [(d, ''text/'' @ two_digits idx @ ''-'' @ s @ ''.xhtml'')],
         manifest_items = manifest_items b @
            [manifest_item (''domain'' @ two_digits idx) (''text/'' @ two_digits idx @ ''-'' @ s @ ''.xhtml'')],
         spine_items = spine_items b @ [spine_item (''domain'' @ two_digits idx)],
         chapters = AList.update (''text/'' @ two_digits idx @ ''-'' @ s @ ''.xhtml'')
                      (chapter_xhtml d bs) (chapters b)\<rparr> = Inr b'"
    unfolding it by (auto simp: Let_def split: option.splits sum.splits)
  from map_of_SomeD[OF l] assms obtain qs' where
    qs': "l = map question_dict qs'" "set qs' \<subseteq> set qs"
    by (auto simp: record_groups_def)
  from bs qs' have "bs = map (\<lambda>q. qa_markup (q_id q) (strip (q_question q))
            (case find c_correct (q_choices q) of None \<Rightarrow> [] | Some c \<Rightarrow> c_id c)
            (case find c_correct (q_choices q) of None \<Rightarrow> [] | Some c \<Rightarrow> c_text c)) qs'"
    by (simp add: qa_blocks_typed)
  then have "markup_tags (chapter_xhtml d bs)
      = Some (chapter_head_tags @ concat (map question_tags qs') @ chapter_foot_tags)"
    by (simp add: markup_tags_def scan_chapter)
  with qs'(2) have new: "template_chapter qs (chapter_xhtml d bs)"
    by (auto simp: template_chapter_def)
  have "\<forall>(file, doc) \<in> set (AList.update (''text/'' @ two_digits idx @ ''-'' @ s @ ''.xhtml'')
                      (chapter_xhtml d bs) (chapters b)). template_chapter qs doc"
    using new Cons.prems(2) by (auto dest!: update_member)
  with Cons.IH[OF step] show ?case by simp
qed

lemma build_book_chapters:
  assumes "build_book (map question_dict qs) = Inr b"
  shows "\<forall>(file, doc) \<in> set (chapters b). template_chapter qs doc"
proof -
  from assms obtain domains where g: "group_domains (map question_dict qs) [] = Inr domains"
    and l: "chapter_loop domains 1 (domain_items_of domains) initial_book = Inr b"
    by (auto simp: build_book_def split: sum.splits)
  have "record_groups qs []" by (simp add: record_groups_def)
  from group_domains_records[OF this _ g] have rg: "record_groups qs domains" by simp
  show ?thesis
    by (rule chapter_loop_chapters[OF rg l]) (simp add: initial_book_def)
qed

section \<open>The claims about the Text Cleaner and the Question Parser\<close>

text \<open>
  Claim C1. For every valid question block (a stem, four lettered choices and an answer
  marker) the parser emits exactly one record with four choices, exactly one of them
  correct, the one named by the answer marker. The baseline script does so
  (\<open>baseline_valid_block\<close>). The fixed script searches the pattern of choice A in
  \<open>rest\<close>, the text after the first \<open>A.\<close>, and so drops a valid block that has no
  second \<open>A.\<close>: on the block below it emits nothing, where the baseline script emits
  the record.
\<close>

theorem fixed_parser_drops_valid_block:
  "parse_questions_fixed
     ''Question #: 1 - [Access Control]\<newline>Which one? A. foo B. bar C. baz D. qux\<newline>Answer: B\<newline>Because.''
     = Inr [] \<and>
   parse_questions_baseline
     ''Question #: 1 - [Access Control]\<newline>Which one? A. foo B. bar C. baz D. qux\<newline>Answer: B\<newline>Because.''
     = Inr [\<lparr>q_id = ''Q1'', q_domain = ''Access Control'', q_question = ''Which one?'',
            q_choices =
              [\<lparr>c_id = ''A'', c_text = ''foo'', c_correct = False\<rparr>,
               \<lparr>c_id = ''B'', c_text = ''bar'', c_correct = True\<rparr>,
               \<lparr>c_id = ''C'', c_text = ''baz'', c_correct = False\<rparr>,
               \<lparr>c_id = ''D'', c_text = ''qux'', c_correct = False\<rparr>],
            q_explanation = ''Because.'', q_reference = []\<rparr>]"
  using sample_valid_fixed sample_valid_baseline by simp

text \<open>
  Claim C2, as the baseline script has it. A block without the answer marker yields
  no record in either script, and the loop goes on. The baseline script also skips a
  block that has the answer marker but no \<open>A.\<close>, so whenever it returns, the number of
  records is the number of headers less the number of blocks that lack the answer
  marker or the \<open>A.\<close> marker.
\<close>

theorem baseline_emitted_count:
  assumes "parse_questions_baseline t = Inr rs"
  shows "length rs = length (question_blocks t)
           - length (filter (\<lambda>(num, domain, content).
                        \<not> has_answer_marker content \<or> \<not> has_choice_a content) (question_blocks t))
         \<and> (\<forall>(num, domain, content) \<in> set (question_blocks t).
              \<not> has_answer_marker content \<longrightarrow>
              (\<forall>n. block_baseline n domain content = None \<and> block_fixed n domain content = None))"
proof -
  let ?bs = "question_blocks t"
  let ?f = "\<lambda>(num, dm, ct). block_baseline (digits_value num) dm ct"
  from assms have rs: "rs = List.map_filter ?f ?bs"
    unfolding parse_questions_baseline_def parse_loop_eq by (auto split: if_splits)
  have eq: "(\<lambda>b. ?f b = None) = (\<lambda>(num, dm, ct). \<not> has_answer_marker ct \<or> \<not> has_choice_a ct)"
    by (auto simp: fun_eq_iff block_baseline_None_iff)
  have "length rs = length ?bs - length (filter (\<lambda>b. ?f b = None) ?bs)"
    unfolding rs by (rule map_filter_length)
  then have len: "length rs = length ?bs
      - length (filter (\<lambda>(num, dm, ct). \<not> has_answer_marker ct \<or> \<not> has_choice_a ct) ?bs)"
    unfolding eq .
  have "block_baseline n dm ct = None \<and> block_fixed n dm ct = None"
    if "\<not> has_answer_marker ct" for n dm ct
    using that block_baseline_None_iff block_fixed_no_answer by blast
  with len show ?thesis by auto
qed

text \<open>The theorem on a text of two blocks, the second without an answer marker.\<close>

theorem baseline_emitted_count_witness:
  "parse_questions_baseline
     ''Question #: 1 - [AC]\<newline>S A. a B. b C. c D. d\<newline>Answer: C\<newline>Question #: 2 - [AC]\<newline>no marker A. x''
     = Inr [\<lparr>q_id = ''Q1'', q_domain = ''AC'', q_question = ''S'',
            q_choices =
              [\<lparr>c_id = ''A'', c_text = ''a'', c_correct = False\<rparr>,
               \<lparr>c_id = ''B'', c_text = ''b'', c_correct = False\<rparr>,
               \<lparr>c_id = ''C'', c_text = ''c'', c_correct = True\<rparr>,
               \<lparr>c_id = ''D'', c_text = ''d'', c_correct = False\<rparr>],
            q_explanation = [], q_reference = []\<rparr>] \<and>
   question_blocks
     ''Question #: 1 - [AC]\<newline>S A. a B. b C. c D. d\<newline>Answer: C\<newline>Question #: 2 - [AC]\<newline>no marker A. x''
     = [(''1'', ''AC'', ''S A. a B. b C. c D. d\<newline>Answer: C''), (''2'', ''AC'', ''no marker A. x'')] \<and>
   \<not> has_answer_marker ''no marker A. x'' \<and>
   block_baseline 2 ''AC'' ''no marker A. x'' = None \<and>
   block_fixed 2 ''AC'' ''no marker A. x'' = None \<and>
   length (filter (\<lambda>(num, domain, content). \<not> has_answer_marker content \<or> \<not> has_choice_a content)
      (question_blocks
        ''Question #: 1 - [AC]\<newline>S A. a B. b C. c D. d\<newline>Answer: C\<newline>Question #: 2 - [AC]\<newline>no marker A. x''))
     = 1"
proof -
  let ?t = "''Question #: 1 - [AC]\<newline>S A. a B. b C. c D. d\<newline>Answer: C\<newline>Question #: 2 - [AC]\<newline>no marker A. x''"
  let ?r = "\<lparr>q_id = ''Q1'', q_domain = ''AC'', q_question = ''S'',
            q_choices =
              [\<lparr>c_id = ''A'', c_text = ''a'', c_correct = False\<rparr>,
               \<lparr>c_id = ''B'', c_text = ''b'', c_correct = False\<rparr>,
               \<lparr>c_id = ''C'', c_text = ''c'', c_correct = True\<rparr>,
               \<lparr>c_id = ''D'', c_text = ''d'', c_correct = False\<rparr>],
            q_explanation = [], q_reference = []\<rparr>"
  have h: "parse_questions_baseline ?t = Inr [?r]" by code_simp
  have b: "question_blocks ?t
     = [(''1'', ''AC'', ''S A. a B. b C. c D. d\<newline>Answer: C''), (''2'', ''AC'', ''no marker A. x'')]"
    by code_simp
  have na: "\<not> has_answer_marker ''no marker A. x''" by code_simp
  note inst = baseline_emitted_count[OF h]
  from inst have len: "length (filter (\<lambda>(num, domain, content). \<not> has_answer_marker content \<or> \<not> has_choice_a content)
      (question_blocks ?t)) = 1"
    unfolding b by (simp split: if_splits)
  from inst na have "block_baseline 2 ''AC'' ''no marker A. x'' = None \<and>
      block_fixed 2 ''AC'' ''no marker A. x'' = None"
    unfolding b by simp
  with h b na len show ?thesis by blast
qed

text \<open>Against C2 as stated: one header, no block without the answer marker, and no
  record, because the block has no \<open>A.\<close>.\<close>

theorem answer_marker_count_counterexample:
  "parse_questions_baseline ''Question #: 1 - [X]\<newline>stem only\<newline>Answer: B'' = Inr [] \<and>
   length (question_blocks ''Question #: 1 - [X]\<newline>stem only\<newline>Answer: B'') = 1 \<and>
   filter (\<lambda>(num, domain, content). \<not> has_answer_marker content)
     (question_blocks ''Question #: 1 - [X]\<newline>stem only\<newline>Answer: B'') = []"
  by code_simp









section \<open>The claims about the Book Builder\<close>



text \<open>
  Claim C6. The first entry written is \<open>mimetype\<close>, stored, and every entry written
  with \<open>writestr\<close> is deflated (\<open>archive_compression\<close>). The icon is written with
  \<open>zf.write\<close> and no \<open>compress_type\<close>, so when the icon file exists its entry is
  stored: the archive for an empty list of questions and an existing icon has two
  stored entries.
\<close>

theorem icon_entry_is_stored:
  \<open>build_epub \<lparr>book_id = u, now = n, icon = Some svg\<rparr> [] title =
     Inr [(''mimetype'', ZIP_STORED, ''application/epub+zip''),
          (''META-INF/container.xml'', ZIP_DEFLATED, container_xml),
          (''OEBPS/content.opf'', ZIP_DEFLATED,
             content_opf u n title manifest_head [''<itemref idref="title"/>'']),
          (''OEBPS/toc.ncx'', ZIP_DEFLATED, toc_ncx u title []),
          (''OEBPS/nav.xhtml'', ZIP_DEFLATED, nav_xhtml []),
          (''OEBPS/styles/style.css'', ZIP_DEFLATED, style_css),
          (''OEBPS/pwa-icon.svg'', ZIP_STORED, svg),
          (''OEBPS/text/title.xhtml'', ZIP_DEFLATED, title_xhtml title)]\<close>
  by (simp add: build_epub_def build_book_def write_archive_def initial_book_def
      domain_items_of_def)



text \<open>
  Claim C8. Whatever characters the ids, the question stems, the choice texts and the
  domain of QuestionRecords hold, the chapter document rendered from them scans without
  a malformed place (no \<open><\<close>, \<open>>\<close>, quote or bare \<open>&\<close> in text or in an attribute
  value), and its tags are exactly those of the templates: the user-supplied text adds
  no tag, and only a newline inside a paragraph of the stem adds a \<open><br/>\<close>. This
  holds of a chapter rendered from any records under any domain, and so of every
  chapter of the book \<open>build_epub\<close> builds from records.
\<close>

theorem chapter_text_is_escaped:
  "(\<exists>blocks. qa_blocks (map question_dict qs) = Inr blocks \<and>
      markup_tags (chapter_xhtml domain blocks)
        = Some (chapter_head_tags @ concat (map question_tags qs) @ chapter_foot_tags)) \<and>
   (\<exists>b. build_book (map question_dict qs) = Inr b \<and>
      (\<forall>(file, doc) \<in> set (chapters b).
         \<exists>qs'. set qs' \<subseteq> set qs \<and>
           markup_tags doc
             = Some (chapter_head_tags @ concat (map question_tags qs') @ chapter_foot_tags)))"
proof -
  from build_book_typed[of qs] obtain b where b: "build_book (map question_dict qs) = Inr b"
    by blast
  from build_book_chapters[OF b] b
  have "\<exists>b. build_book (map question_dict qs) = Inr b \<and>
      (\<forall>(file, doc) \<in> set (chapters b).
         \<exists>qs'. set qs' \<subseteq> set qs \<and>
           markup_tags doc
             = Some (chapter_head_tags @ concat (map question_tags qs') @ chapter_foot_tags))"
    unfolding template_chapter_def by blast
  then show ?thesis
    by (simp add: qa_blocks_typed markup_tags_def scan_chapter)
qed

text \<open>A record whose id, stem, domain and correct choice hold markup characters.\<close>

theorem chapter_text_is_escaped_witness:
  \<open>\<exists>blocks.
     qa_blocks (map question_dict
       [\<lparr>q_id = ''Q<1>'', q_domain = ''R & D'', q_question = ''a < b & c\<newline>\<newline>"x"\<newline>y'',
         q_choices = [\<lparr>c_id = ''A'', c_text = ''<i>'', c_correct = True\<rparr>],
         q_explanation = [], q_reference = []\<rparr>]) = Inr blocks \<and>
     markup_tags (chapter_xhtml ''R & D'' blocks)
       = Some [''?xml version="" encoding=""?'', ''!DOCTYPE html'', ''html xmlns="" xml:lang=""'',
               ''head'', ''title'', ''/title'', ''link rel="" type="" href=""/'', ''/head'', ''body'',
               ''p class=""'', ''/p'', ''h1'', ''/h1'',
               ''div class=""'', ''h2 id=""'', ''/h2'', ''p'', ''/p'', ''p'', ''br/'', ''/p'',
               ''p class=""'', ''b'', ''/b'', ''/p'', ''hr/'', ''/div'', ''/body'', ''/html'']\<close>
proof -
  let ?q = \<open>\<lparr>q_id = ''Q<1>'', q_domain = ''R & D'', q_question = ''a < b & c\<newline>\<newline>"x"\<newline>y'',
         q_choices = [\<lparr>c_id = ''A'', c_text = ''<i>'', c_correct = True\<rparr>],
         q_explanation = [], q_reference = []\<rparr>\<close>
  have t: \<open>chapter_head_tags @ concat (map question_tags [?q]) @ chapter_foot_tags
     = [''?xml version="" encoding=""?'', ''!DOCTYPE html'', ''html xmlns="" xml:lang=""'',
               ''head'', ''title'', ''/title'', ''link rel="" type="" href=""/'', ''/head'', ''body'',
               ''p class=""'', ''/p'', ''h1'', ''/h1'',
               ''div class=""'', ''h2 id=""'', ''/h2'', ''p'', ''/p'', ''p'', ''br/'', ''/p'',
               ''p class=""'', ''b'', ''/b'', ''/p'', ''hr/'', ''/div'', ''/body'', ''/html'']\<close>
    by code_simp
  from chapter_text_is_escaped[of "[?q]" "''R & D''"] show ?thesis
    unfolding t by blast
qed




end
